(* ===== verification/Prelude.thy ===== *)
theory Prelude
  imports Complex_Main "HOL-Library.AList" "HOL-Library.Product_Lexorder"
begin

text \<open>
  Shared vocabulary of the development.
  \<^item> Python dictionaries keep insertion order, and \<open>d[k] = v\<close> overwrites an
    existing key in place and appends a new key at the end. That is exactly
    \<open>AList.update\<close> of HOL-Library; a dictionary is an association list with
    distinct keys, read with \<open>map_of\<close>.
  \<^item> Python strings of the source contain French accented letters; HOL strings are
    byte lists, so the accented letters are written as their UTF-8 byte pairs.
  \<^item> The collections \<open>dict_simps\<close> and \<open>model_simps\<close> gather the facts the
    component proofs pass to \<open>simp\<close>.
\<close>

named_theorems dict_simps "facts on Python dictionaries as association lists"
named_theorems model_simps "unfolding facts shared by the component theories"

type_synonym ('k, 'v) pydict = "('k \<times> 'v) list"

abbreviation dict_set :: "'k \<Rightarrow> 'v \<Rightarrow> ('k, 'v) pydict \<Rightarrow> ('k, 'v) pydict" where
  "dict_set k v d \<equiv> AList.update k v d"

abbreviation dict_keys :: "('k, 'v) pydict \<Rightarrow> 'k list" where
  "dict_keys d \<equiv> map fst d"

subsection \<open>UTF-8 byte pairs of the accented letters used in the source\<close>

definition e_acute :: string where "e_acute = [CHR 0xC3, CHR 0xA9]"
definition e_grave :: string where "e_grave = [CHR 0xC3, CHR 0xA8]"
definition c_cedil :: string where "c_cedil = [CHR 0xC3, CHR 0xA7]"
definition E_acute :: string where "E_acute = [CHR 0xC3, CHR 0x89]"

lemmas utf8_letters [model_simps] = e_acute_def e_grave_def c_cedil_def E_acute_def

subsection \<open>Dictionaries filled by a loop\<close>

text \<open>
  The pattern \<open>for x in xs: d[key x] = val x\<close> occurs three times in the
  source. Its result is a left fold of \<open>dict_set\<close>.
\<close>

lemma dict_fold_keys [dict_simps]:
  "map fst (fold (\<lambda>x d. dict_set (key x) (val x) d) xs d0) =
     fold (\<lambda>k ks. if k \<in> set ks then ks else ks @ [k]) (map key xs) (map fst d0)"
  by (induction xs arbitrary: d0) (simp_all add: AList.update_keys)

lemma dict_fold_keys_distinct [dict_simps]:
  "distinct (map key xs) \<Longrightarrow> set (map key xs) \<inter> set (map fst d0) = {} \<Longrightarrow>
     map fst (fold (\<lambda>x d. dict_set (key x) (val x) d) xs d0) = map fst d0 @ map key xs"
proof (induction xs arbitrary: d0)
  case Nil
  then show ?case by simp
next
  case (Cons a xs)
  have new: "key a \<notin> set (map fst d0)" using Cons.prems(2) by auto
  then have keys: "map fst (dict_set (key a) (val a) d0) = map fst d0 @ [key a]"
    by (simp add: AList.update_keys)
  have disj: "set (map key xs) \<inter> set (map fst (dict_set (key a) (val a) d0)) = {}"
    using Cons.prems by (auto simp: keys)
  have dist: "distinct (map key xs)" using Cons.prems(1) by simp
  have "map fst (fold (\<lambda>x d. dict_set (key x) (val x) d) xs (dict_set (key a) (val a) d0)) =
       map fst d0 @ [key a] @ map key xs"
    using Cons.IH [OF dist disj] keys by simp
  then show ?case by simp
qed

lemma dict_fold_lookup [dict_simps]:
  "map_of (fold (\<lambda>x d. dict_set (key x) (val x) d) xs d0) =
     fold (\<lambda>x m. m(key x \<mapsto> val x)) xs (map_of d0)"
  by (induction xs arbitrary: d0) (simp_all add: AList.update_conv')

lemma dict_fold_distinct [dict_simps]:
  "distinct (map fst d0) \<Longrightarrow>
     distinct (map fst (fold (\<lambda>x d. dict_set (key x) (val x) d) xs d0))"
  by (induction xs arbitrary: d0) (simp_all add: AList.distinct_update)

text \<open>
  The pattern \<open>for x in xs: if ok(x): d[x] = f(x)\<close> over distinct keys that are
  new to \<open>d\<close> appends the kept entries in loop order.
\<close>

lemma dict_fold_option_distinct [dict_simps]:
  "distinct xs \<Longrightarrow> set xs \<inter> set (map fst d0) = {} \<Longrightarrow>
   fold (\<lambda>x d. case f x of Some v \<Rightarrow> dict_set x v d | None \<Rightarrow> d) xs d0 =
     d0 @ concat (map (\<lambda>x. case f x of Some v \<Rightarrow> [(x, v)] | None \<Rightarrow> []) xs)"
proof (induction xs arbitrary: d0)
  case Nil
  then show ?case by simp
next
  case (Cons a xs)
  show ?case
  proof (cases "f a")
    case None
    with Cons show ?thesis by simp
  next
    case (Some v)
    have new: "a \<notin> set (map fst d0)" using Cons.prems(2) by auto
    then have upd: "dict_set a v d0 = d0 @ [(a, v)]"
      by (induction d0) auto
    have "set xs \<inter> set (map fst (d0 @ [(a, v)])) = {}" using Cons.prems by auto
    with Cons.prems(1) Cons.IH [of "d0 @ [(a, v)]"] Some upd show ?thesis by simp
  qed
qed

text \<open>A loop of \<open>d[k] = v\<close> over pairs with distinct new keys appends them.\<close>

lemma dict_fold_pairs_distinct [dict_simps]:
  "distinct (map fst ps) \<Longrightarrow> set (map fst ps) \<inter> set (map fst d0) = {} \<Longrightarrow>
   fold (\<lambda>(k, v) d. dict_set k v d) ps d0 = d0 @ ps"
proof (induction ps arbitrary: d0)
  case Nil
  then show ?case by simp
next
  case (Cons p ps)
  obtain k v where p: "p = (k, v)" by (cases p)
  with Cons.prems have new: "k \<notin> set (map fst d0)" by auto
  then have upd: "dict_set k v d0 = d0 @ [(k, v)]" by (induction d0) auto
  have "set (map fst ps) \<inter> set (map fst (d0 @ [(k, v)])) = {}" using Cons.prems p by auto
  with Cons.prems(1) Cons.IH [of "d0 @ [(k, v)]"] p upd show ?case by simp
qed

subsection \<open>Lists related pointwise\<close>

lemma dict_fold_option_keys [dict_simps]:
  "set (map fst (fold (\<lambda>x d. case f x of Some v \<Rightarrow> dict_set x v d | None \<Rightarrow> d) xs d0)) \<subseteq>
     set (map fst d0) \<union> set xs"
proof (induction xs arbitrary: d0)
  case Nil
  then show ?case by simp
next
  case (Cons x xs)
  let ?d1 = "case f x of Some v \<Rightarrow> dict_set x v d0 | None \<Rightarrow> d0"
  have step: "set (map fst ?d1) \<subseteq> insert x (set (map fst d0))"
    by (cases "f x") (auto simp: AList.update_keys)
  have "set (map fst (fold (\<lambda>x d. case f x of Some v \<Rightarrow> dict_set x v d | None \<Rightarrow> d) xs ?d1)) \<subseteq>
      set (map fst ?d1) \<union> set xs" by (rule Cons.IH)
  with step have "set (map fst (fold (\<lambda>x d. case f x of Some v \<Rightarrow> dict_set x v d | None \<Rightarrow> d) xs ?d1)) \<subseteq>
      set (map fst d0) \<union> set (x # xs)" by (simp only: set_simps) blast
  then show ?case by simp
qed

lemma dict_set_pairs: "set (dict_set k v d) \<subseteq> insert (k, v) (set d)"
  by (induction d) auto

lemma dict_fold_option_pairs [dict_simps]:
  "set (fold (\<lambda>x d. case f x of Some v \<Rightarrow> dict_set x v d | None \<Rightarrow> d) xs d0) \<subseteq>
     set d0 \<union> {(x, v). f x = Some v}"
proof (induction xs arbitrary: d0)
  case Nil
  then show ?case by simp
next
  case (Cons x xs)
  let ?d1 = "case f x of Some v \<Rightarrow> dict_set x v d0 | None \<Rightarrow> d0"
  have step: "set ?d1 \<subseteq> set d0 \<union> {(x, v). f x = Some v}"
    using dict_set_pairs [of x _ d0] by (cases "f x") auto
  have "set (fold (\<lambda>x d. case f x of Some v \<Rightarrow> dict_set x v d | None \<Rightarrow> d) xs ?d1) \<subseteq>
      set ?d1 \<union> {(x, v). f x = Some v}" by (rule Cons.IH)
  with step show ?case by auto
qed

lemma list_all2_mem1: "list_all2 P xs ys \<Longrightarrow> x \<in> set xs \<Longrightarrow> \<exists>y \<in> set ys. P x y"
  by (induction rule: list_all2_induct) auto

lemma list_all2_keys:
  "list_all2 (\<lambda>(c, xs) (c', as). c = c' \<and> Q xs as) sel cat \<Longrightarrow> map fst sel = map fst cat"
  by (induction rule: list_all2_induct) auto

end
