(* ===== verification/Floats.thy ===== *)
theory Floats
  imports Prelude
begin

text \<open>
  The numbers the script computes with are numpy \<open>float64\<close> values held by pandas
  objects. This theory models them as a \<open>datatype\<close> of finite values (exact reals),
  the two infinities and NaN, with numpy's rules for the operations the script uses:
  \<open>/\<close>, \<open>*\<close>, \<open>-\<close> (\<open>get_normalized_data\<close>, the return loop), truth value
  (\<open>if a and b\<close>), \<open>round(x, 2)\<close> and the NaN-skipping maximum of
  \<open>df.max().max()\<close>. Rounding of finite results to 53 bits, overflow of a finite
  result to an infinity, and the sign of zero are not modelled: finite values are
  exact reals. A property whose truth depends on this is stated only under
  hypotheses that make float64 exact as well (\<open>float64_normal\<close>, products by
  powers of two), or for results that are exact in float64 (\<open>a / a\<close>, \<open>a - a\<close>).
\<close>

datatype fl = Num real | PInf | NInf | NaN

subsection \<open>Arithmetic\<close>

text \<open>An infinity scaled by the sign of a real (\<open>inf * c\<close>, \<open>inf / c\<close>).\<close>

definition inf_times :: "real \<Rightarrow> fl \<Rightarrow> fl" where
  "inf_times c i = (if c > 0 then i else if c < 0 then (if i = PInf then NInf else PInf) else NaN)"

fun fl_neg :: "fl \<Rightarrow> fl" where
  "fl_neg (Num a) = Num (- a)"
| "fl_neg PInf = NInf"
| "fl_neg NInf = PInf"
| "fl_neg NaN = NaN"

fun fl_add :: "fl \<Rightarrow> fl \<Rightarrow> fl" where
  "fl_add (Num a) (Num b) = Num (a + b)"
| "fl_add NaN _ = NaN"
| "fl_add _ NaN = NaN"
| "fl_add PInf NInf = NaN"
| "fl_add NInf PInf = NaN"
| "fl_add PInf _ = PInf"
| "fl_add NInf _ = NInf"
| "fl_add _ PInf = PInf"
| "fl_add _ NInf = NInf"

definition fl_sub :: "fl \<Rightarrow> fl \<Rightarrow> fl" where
  "fl_sub a b = fl_add a (fl_neg b)"

fun fl_mul :: "fl \<Rightarrow> fl \<Rightarrow> fl" where
  "fl_mul (Num a) (Num b) = Num (a * b)"
| "fl_mul NaN _ = NaN"
| "fl_mul _ NaN = NaN"
| "fl_mul (Num a) i = inf_times a i"
| "fl_mul i (Num b) = inf_times b i"
| "fl_mul PInf i = i"
| "fl_mul NInf i = fl_neg i"

text \<open>
  IEEE division: a finite value over zero is an infinity of the dividend's sign
  (\<open>0/0\<close> is NaN); a finite value over an infinity is zero; infinity over
  infinity is NaN. Zero is taken as \<open>+0.0\<close>.
\<close>

fun fl_div :: "fl \<Rightarrow> fl \<Rightarrow> fl" where
  "fl_div (Num a) (Num b) =
     (if b \<noteq> 0 then Num (a / b) else if a > 0 then PInf else if a < 0 then NInf else NaN)"
| "fl_div NaN _ = NaN"
| "fl_div _ NaN = NaN"
| "fl_div (Num a) _ = Num 0"
| "fl_div i (Num b) = (if b = 0 then i else inf_times b i)"
| "fl_div _ _ = NaN"

subsection \<open>Truth value, rounding, maximum\<close>

text \<open>Python's \<open>bool(x)\<close> of a float: false exactly for zero; NaN is true.\<close>

fun fl_truthy :: "fl \<Rightarrow> bool" where
  "fl_truthy (Num a) = (a \<noteq> 0)"
| "fl_truthy _ = True"

text \<open>numpy's \<open>rint\<close>: round to the nearest integer, ties to even.\<close>

definition round_half_even :: "real \<Rightarrow> int" where
  "round_half_even x =
     (let f = \<lfloor>x\<rfloor>; r = x - of_int f in
      if r < 1/2 then f else if r > 1/2 then f + 1 else if even f then f else f + 1)"

text \<open>
  \<open>round(v, 2)\<close> on a numpy float is \<open>numpy.round(v, 2)\<close>, that is
  \<open>rint(v * 100) / 100\<close>; infinities and NaN are returned unchanged.
\<close>

fun fl_round2 :: "fl \<Rightarrow> fl" where
  "fl_round2 (Num a) = Num (of_int (round_half_even (a * 100)) / 100)"
| "fl_round2 x = x"

text \<open>The larger of two non-NaN values, and pandas' NaN-skipping maximum of a column.\<close>

fun fl_max :: "fl \<Rightarrow> fl \<Rightarrow> fl" where
  "fl_max PInf _ = PInf"
| "fl_max _ PInf = PInf"
| "fl_max NInf y = y"
| "fl_max x NInf = x"
| "fl_max (Num a) (Num b) = Num (max a b)"
| "fl_max x NaN = x"
| "fl_max NaN y = y"

definition max_skipna :: "fl list \<Rightarrow> fl" where
  "max_skipna xs = (case filter (\<lambda>x. x \<noteq> NaN) xs of [] \<Rightarrow> NaN | y # ys \<Rightarrow> fold fl_max ys y)"

text \<open>
  A real that float64 holds exactly with no overflow and no underflow: zero, or a
  magnitude in the normal range \<open>[2^-1022, 2^1024)\<close>. On such values a product by a
  power of two is exact in float64 too, not only in this model.
\<close>

definition float64_normal :: "real \<Rightarrow> bool" where
  "float64_normal x \<longleftrightarrow> x = 0 \<or> ((1/2) ^ 1022 \<le> \<bar>x\<bar> \<and> \<bar>x\<bar> < 2 ^ 1024)"

subsection \<open>Facts used by the Normalizer\<close>

lemma inf_times_pos [simp]: "0 < k \<Longrightarrow> inf_times k i = i"
  by (simp add: inf_times_def)

lemma inf_times_scale: "0 < k \<Longrightarrow> inf_times (b * k) i = inf_times b i"
  by (auto simp: inf_times_def zero_less_mult_iff mult_less_0_iff)

text \<open>Dividing two values scaled by the same positive factor undoes the scaling.\<close>

lemma fl_div_scale: "0 < k \<Longrightarrow> fl_div (fl_mul x (Num k)) (fl_mul y (Num k)) = fl_div x y"
  by (cases x; cases y) (auto simp: inf_times_scale zero_less_mult_iff mult_less_0_iff)

text \<open>A value divided by a zero base, then scaled by 100, is never a finite number.\<close>

lemma fl_zero_base_not_num: "fl_mul (fl_div x (Num 0)) (Num 100) \<noteq> Num a"
  by (cases x) (auto simp: inf_times_def)

subsection \<open>NaN propagates\<close>

lemma fl_add_NaN [simp]: "fl_add x NaN = NaN"
  by (cases x) auto

lemma fl_div_NaN [simp]: "fl_div x NaN = NaN"
  by (cases x) auto

lemma fl_mul_NaN [simp]: "fl_mul x NaN = NaN"
  by (cases x) auto

subsection \<open>Rounding error\<close>

lemma round_half_even_bound: "\<bar>x - of_int (round_half_even x)\<bar> \<le> 1/2"
proof -
  have fl: "of_int \<lfloor>x\<rfloor> \<le> x" "x < of_int \<lfloor>x\<rfloor> + 1" by linarith+
  show ?thesis unfolding round_half_even_def Let_def using fl by (auto split: if_splits)
qed

lemma round_half_even_int [simp]: "round_half_even (of_int n) = n"
  by (simp add: round_half_even_def)

lemma fl_round2_bound:
  "fl_round2 (Num x) = Num r \<Longrightarrow> \<bar>r - x\<bar> \<le> 1/200"
proof -
  assume "fl_round2 (Num x) = Num r"
  then have r: "r = of_int (round_half_even (x * 100)) / 100" by simp
  have "\<bar>x * 100 - of_int (round_half_even (x * 100))\<bar> \<le> 1/2" by (rule round_half_even_bound)
  then show ?thesis unfolding r by (simp add: abs_minus_commute field_simps)
qed

end
