(* ===== verification/Dates.thy ===== *)
theory Dates
  imports Prelude
begin

text \<open>
  Calendar dates (Python \<open>datetime.date\<close>, and the midnight \<open>datetime\<close>s that
  \<open>datetime.combine(d, datetime.min.time())\<close> makes of them, lines 72--73 of
  \<open>src/idl/app.py\<close>), their order, their ISO text (\<open>strftime("%Y-%m-%d")\<close>, line
  146, and \<open>str(end_date)\<close>, line 262), and the sidebar's two Streamlit
  \<open>date_input\<close> widgets (lines 70--71). The widget itself is library code; its
  contract (refuse a default value outside \<open>[min_value, max_value]\<close>, return a
  date inside it) is modelled from Streamlit's documented behaviour.
\<close>

datatype date = Date nat nat nat \<comment> \<open>year, month, day\<close>

fun date_key :: "date \<Rightarrow> nat \<times> nat \<times> nat" where
  "date_key (Date y m d) = (y, m, d)"

instantiation date :: linorder
begin

definition less_eq_date :: "date \<Rightarrow> date \<Rightarrow> bool" where
  "less_eq_date a b \<longleftrightarrow> date_key a \<le> date_key b"

definition less_date :: "date \<Rightarrow> date \<Rightarrow> bool" where
  "less_date a b \<longleftrightarrow> date_key a < date_key b"

instance
proof
  fix x y z :: date
  show "x < y \<longleftrightarrow> x \<le> y \<and> \<not> y \<le> x" by (auto simp: less_eq_date_def less_date_def)
  show "x \<le> x" by (simp add: less_eq_date_def)
  show "x \<le> y \<Longrightarrow> y \<le> z \<Longrightarrow> x \<le> z" by (auto simp: less_eq_date_def)
  show "x \<le> y \<Longrightarrow> y \<le> x \<Longrightarrow> x = y" by (cases x; cases y) (auto simp: less_eq_date_def)
  show "x \<le> y \<or> y \<le> x" by (auto simp: less_eq_date_def)
qed

end

subsection \<open>Valid dates\<close>

definition leap_year :: "nat \<Rightarrow> bool" where
  "leap_year y \<longleftrightarrow> (4 dvd y \<and> \<not> 100 dvd y) \<or> 400 dvd y"

definition days_in_month :: "nat \<Rightarrow> nat \<Rightarrow> nat" where
  "days_in_month y m =
     (if m = 2 then (if leap_year y then 29 else 28)
      else if m \<in> {4, 6, 9, 11} then 30 else 31)"

text \<open>Python's \<open>date\<close> constructor accepts exactly these (\<open>MINYEAR = 1\<close>, \<open>MAXYEAR = 9999\<close>).\<close>

definition valid_date :: "date \<Rightarrow> bool" where
  "valid_date dt = (case dt of Date y m d \<Rightarrow>
     1 \<le> y \<and> y \<le> 9999 \<and> 1 \<le> m \<and> m \<le> 12 \<and> 1 \<le> d \<and> d \<le> days_in_month y m)"

subsection \<open>ISO text of a date\<close>

definition digit :: "nat \<Rightarrow> char" where
  "digit n = char_of (48 + n)"

definition pad2 :: "nat \<Rightarrow> string" where
  "pad2 n = [digit (n div 10), digit (n mod 10)]"

definition pad4 :: "nat \<Rightarrow> string" where
  "pad4 n = [digit (n div 1000), digit (n div 100 mod 10), digit (n div 10 mod 10), digit (n mod 10)]"

text \<open>
  \<open>strftime("%Y-%m-%d")\<close> and \<open>str(date)\<close>: the year on four digits, month and
  day on two, separated by hyphens. (glibc's \<open>%Y\<close> does not pad years below 1000;
  the sidebar's floor of 2000 keeps them out.)
\<close>

definition date_iso :: "date \<Rightarrow> string" where
  "date_iso dt = (case dt of Date y m d \<Rightarrow> pad4 y @ ''-'' @ pad2 m @ ''-'' @ pad2 d)"

text \<open>
  The reading of that text on the data source's side (yfinance parses the
  \<open>start\<close> and \<open>end\<close> strings as \<open>YYYY-MM-DD\<close>).
\<close>

definition undigit :: "char \<Rightarrow> nat option" where
  "undigit c = (let n = of_char c in if 48 \<le> n \<and> n < 58 then Some (n - 48) else None)"

fun read_num :: "string \<Rightarrow> nat option" where
  "read_num [] = Some 0"
| "read_num (c # cs) =
     (case undigit c of None \<Rightarrow> None
      | Some k \<Rightarrow> map_option (\<lambda>r. k * 10 ^ length cs + r) (read_num cs))"

definition parse_iso :: "string \<Rightarrow> date option" where
  "parse_iso s =
     (if length s = 10 \<and> s ! 4 = CHR ''-'' \<and> s ! 7 = CHR ''-'' then
        (case (read_num (take 4 s), read_num (take 2 (drop 5 s)), read_num (drop 8 s)) of
           (Some y, Some m, Some d) \<Rightarrow> Some (Date y m d)
         | _ \<Rightarrow> None)
      else None)"

subsection \<open>The sidebar's date widgets\<close>

datatype widget_error = MinAboveMax | ValueOutOfRange

text \<open>
  \<open>st.date_input(label, value, min_value, max_value)\<close>: Streamlit raises
  \<open>StreamlitAPIException\<close> when \<open>min_value > max_value\<close> or when the default
  \<open>value\<close> lies outside \<open>[min_value, max_value]\<close>; otherwise it returns the
  user's pick, which the date picker keeps inside the bounds, or the default when
  the user has not picked.
\<close>

definition date_input :: "date \<Rightarrow> date \<Rightarrow> date \<Rightarrow> date option \<Rightarrow> widget_error + date" where
  "date_input value lo hi pick =
     (if hi < lo then Inl MinAboveMax
      else if value < lo \<or> hi < value then Inl ValueOutOfRange
      else Inr (case pick of None \<Rightarrow> value | Some p \<Rightarrow> max lo (min hi p)))"

text \<open>
  Lines 70--71: the start date defaults to 2010-01-01 within \<open>[2000-01-01, today]\<close>;
  the end date defaults to today within \<open>[start, 2025-12-31]\<close>. The second
  widget is only reached when the first returned.
\<close>

definition sidebar_dates :: "date \<Rightarrow> date option \<Rightarrow> date option \<Rightarrow> widget_error + date \<times> date" where
  "sidebar_dates today pick_start pick_end =
     (case date_input (Date 2010 1 1) (Date 2000 1 1) today pick_start of
        Inl e \<Rightarrow> Inl e
      | Inr s \<Rightarrow>
          (case date_input today s (Date 2025 12 31) pick_end of
             Inl e \<Rightarrow> Inl e
           | Inr e \<Rightarrow> Inr (s, e)))"

subsection \<open>Order of dates\<close>

lemma date_le_iff [model_simps]:
  "Date y m d \<le> Date y' m' d' \<longleftrightarrow> y < y' \<or> (y = y' \<and> (m < m' \<or> (m = m' \<and> d \<le> d')))"
  by (auto simp: less_eq_date_def)

lemma date_less_iff [model_simps]:
  "Date y m d < Date y' m' d' \<longleftrightarrow> y < y' \<or> (y = y' \<and> (m < m' \<or> (m = m' \<and> d < d')))"
  by (auto simp: less_date_def)

subsection \<open>The ISO text reads back as the date\<close>

lemma undigit_digit: "n < 10 \<Longrightarrow> undigit (digit n) = Some n"
  by (simp add: undigit_def digit_def)

lemma length_pad2 [simp]: "length (pad2 n) = 2"
  by (simp add: pad2_def)

lemma length_pad4 [simp]: "length (pad4 n) = 4"
  by (simp add: pad4_def)

lemma read_num_pad2: "n < 100 \<Longrightarrow> read_num (pad2 n) = Some n"
  by (simp add: pad2_def undigit_digit)

lemma decimal_digits4:
  "(n::nat) div 1000 * 1000 + (n div 100 mod 10 * 100 + (n div 10 mod 10 * 10 + n mod 10)) = n"
proof -
  have a: "n div 10 * 10 + n mod 10 = n" by simp
  have q: "n div 10 div 10 = n div 100" "n div 100 div 10 = n div 1000"
    by (simp_all add: div_mult2_eq [symmetric])
  have b: "n div 100 * 10 + n div 10 mod 10 = n div 10"
    using div_mult_mod_eq [of "n div 10" 10] q(1) by simp
  have c: "n div 1000 * 10 + n div 100 mod 10 = n div 100"
    using div_mult_mod_eq [of "n div 100" 10] q(2) by simp
  from a b c show ?thesis by linarith
qed

lemma read_num_pad4: "n < 10000 \<Longrightarrow> read_num (pad4 n) = Some n"
  by (simp add: pad4_def undigit_digit decimal_digits4)

text \<open>
  C11: the text \<open>strftime("%Y-%m-%d")\<close> gives the data source for a start or end
  date reads back as exactly that date, for every date Python can construct.
\<close>

theorem parse_iso_date_iso: "valid_date d \<Longrightarrow> parse_iso (date_iso d) = Some d"
proof (cases d)
  case (Date y m dd)
  assume v: "valid_date d"
  have dm: "days_in_month y m \<le> 31" by (simp add: days_in_month_def)
  from v Date dm have b: "y < 10000" "m < 100" "dd < 100" by (auto simp: valid_date_def)
  let ?s = "pad4 y @ ''-'' @ pad2 m @ ''-'' @ pad2 dd"
  have "take 4 ?s = pad4 y" "take 2 (drop 5 ?s) = pad2 m" "drop 8 ?s = pad2 dd"
    "?s ! 4 = CHR ''-''" "?s ! 7 = CHR ''-''" "length ?s = 10"
    by (simp_all add: nth_append)
  with b Date show ?thesis
    by (simp add: parse_iso_def date_iso_def read_num_pad2 read_num_pad4)
qed

theorem parse_iso_date_iso_witness:
  "valid_date (Date 2024 2 29) \<and> parse_iso (date_iso (Date 2024 2 29)) = Some (Date 2024 2 29)"
proof -
  have v: "valid_date (Date 2024 2 29)"
    by (simp add: valid_date_def days_in_month_def leap_year_def)
  show ?thesis using v parse_iso_date_iso [OF v] by simp
qed

subsection \<open>The sidebar's dates\<close>

lemma date_input_above_max: "hi < value \<Longrightarrow> isl (date_input value lo hi pick)"
  by (simp add: date_input_def)

lemma date_input_bounds: "date_input value lo hi pick = Inr r \<Longrightarrow> lo \<le> r \<and> r \<le> hi"
  by (auto simp: date_input_def split: if_splits option.splits)

text \<open>
  On any day after 2025-12-31 the end-date widget's default (\<open>datetime.now()\<close>)
  lies above its \<open>max_value\<close> (\<open>datetime(2025, 12, 31)\<close>), so the sidebar
  raises whatever the user picks.
\<close>

lemma sidebar_dates_after_2025:
  assumes "Date 2025 12 31 < today"
  shows "isl (sidebar_dates today ps pe)"
proof (cases "date_input (Date 2010 1 1) (Date 2000 1 1) today ps")
  case (Inl e)
  then show ?thesis by (simp add: sidebar_dates_def)
next
  case (Inr s)
  have "isl (date_input today s (Date 2025 12 31) pe)"
    using assms by (rule date_input_above_max)
  with Inr show ?thesis by (auto simp: sidebar_dates_def split: sum.splits)
qed

text \<open>
  C10: when the sidebar returns a date range, it satisfies the spec's DateRange
  invariant: the start is not before 2000-01-01 nor after today, the end is not
  after 2025-12-31, and the start is not after the end.
\<close>

theorem sidebar_dates_range:
  "sidebar_dates today ps pe = Inr (s, e) \<Longrightarrow>
     Date 2000 1 1 \<le> s \<and> s \<le> today \<and> s \<le> e \<and> e \<le> Date 2025 12 31"
  by (auto simp: sidebar_dates_def split: sum.splits dest!: date_input_bounds)

theorem sidebar_dates_range_witness:
  "sidebar_dates (Date 2024 6 1) None (Some (Date 2024 1 1)) = Inr (Date 2010 1 1, Date 2024 1 1) \<and>
   Date 2000 1 1 \<le> Date 2010 1 1 \<and> Date 2010 1 1 \<le> Date 2024 6 1 \<and>
   Date 2010 1 1 \<le> Date 2024 1 1 \<and> Date 2024 1 1 \<le> Date 2025 12 31"
proof -
  have run: "sidebar_dates (Date 2024 6 1) None (Some (Date 2024 1 1)) = Inr (Date 2010 1 1, Date 2024 1 1)"
    by (simp add: sidebar_dates_def date_input_def date_less_iff date_le_iff)
  show ?thesis using run sidebar_dates_range [OF run] by simp
qed

end
