(* ===== verification/Fetch.thy ===== *)
theory Fetch
  imports Floats Dates
begin

text \<open>
  The Series Fetcher and the Normalizer: \<open>get_normalized_data\<close> (lines 9--26 of
  \<open>src/idl/app.py\<close>) and the loop that calls it for every selected ticker and
  fills the dictionary \<open>data\<close> (lines 142--150).

  The data source \<open>yf.download\<close> is external. It is a parameter \<open>src\<close> of the
  model that, for a ticker and the start and end texts, either raises (with the
  exception's text) or returns a pandas frame: a date index and labelled float
  columns, the labels flat (\<open>'Close'\<close>) or two-level (\<open>('Close', 'AAPL')\<close>).
  Messages the script shows (\<open>st.write\<close>, \<open>st.warning\<close>, \<open>st.error\<close>) are
  recorded, in order, as a log.
\<close>

subsection \<open>Frames, downloads, series\<close>

datatype col_label = Flat string | Multi string string

record frame =
  index :: "date list"
  columns :: "(col_label \<times> fl list) list"

datatype py_exc = DownloadExc string | KeyErrorExc string

datatype download = Raises py_exc | Returns frame

type_synonym source = "string \<Rightarrow> string \<Rightarrow> string \<Rightarrow> download"

type_synonym series = "(date \<times> fl) list"

text \<open>What \<open>get_normalized_data\<close> returns when it does not return \<open>None\<close>.\<close>

datatype norm_result = NormSeries series | NormFrame "(string \<times> series) list"

datatype msg =
    Loading string                 \<comment> \<open>line 145\<close>
  | WarnNoData string              \<comment> \<open>line 13\<close>
  | WarnNoClose string             \<comment> \<open>line 20\<close>
  | ErrFetch string py_exc         \<comment> \<open>line 25\<close>
  | ErrLoadFailed string           \<comment> \<open>line 150\<close>
  | ErrNoValidData                 \<comment> \<open>line 154\<close>

text \<open>
  A frame as pandas builds it: every column as long as the index, labels distinct
  and all of one kind (a flat \<open>Index\<close> or a \<open>MultiIndex\<close>), dates increasing.
\<close>

fun is_multi :: "col_label \<Rightarrow> bool" where
  "is_multi (Multi _ _) = True"
| "is_multi (Flat _) = False"

definition wf_frame :: "frame \<Rightarrow> bool" where
  "wf_frame f \<longleftrightarrow>
     (\<forall>c \<in> set (columns f). length (snd c) = length (index f)) \<and>
     distinct (map fst (columns f)) \<and> sorted_wrt (<) (index f) \<and>
     ((\<forall>c \<in> set (columns f). is_multi (fst c)) \<or> (\<forall>c \<in> set (columns f). \<not> is_multi (fst c)))"

text \<open>\<open>DataFrame.empty\<close>: no rows or no columns.\<close>

definition frame_empty :: "frame \<Rightarrow> bool" where
  "frame_empty f \<longleftrightarrow> index f = [] \<or> columns f = []"

subsection \<open>Selecting the closing prices (lines 15--18)\<close>

text \<open>The sub-columns under \<open>'Close'\<close> of a two-level frame, as \<open>raw['Close']\<close> selects them.\<close>

fun close_sub :: "date list \<Rightarrow> col_label \<times> fl list \<Rightarrow> (string \<times> series) list" where
  "close_sub idx (Multi lvl sub, vs) = (if lvl = ''Close'' then [(sub, zip idx vs)] else [])"
| "close_sub idx (Flat _, vs) = []"

datatype close_data = CloseSeries series | CloseFrame "(string \<times> series) list"

text \<open>
  \<open>('Close', ticker) in raw.columns\<close> selects that column; otherwise
  \<open>raw['Close']\<close> is the flat column \<open>'Close'\<close>, or, for a two-level frame, the
  sub-frame of the \<open>'Close'\<close> columns; a missing label raises \<open>KeyError('Close')\<close>.
\<close>

definition select_close :: "string \<Rightarrow> frame \<Rightarrow> py_exc + close_data" where
  "select_close t f =
     (case map_of (columns f) (Multi ''Close'' t) of
        Some vs \<Rightarrow> Inr (CloseSeries (zip (index f) vs))
      | None \<Rightarrow>
          (if list_ex (is_multi \<circ> fst) (columns f) then
             (case concat (map (close_sub (index f)) (columns f)) of
                [] \<Rightarrow> Inl (KeyErrorExc ''Close'')
              | subs \<Rightarrow> Inr (CloseFrame subs))
           else
             (case map_of (columns f) (Flat ''Close'') of
                None \<Rightarrow> Inl (KeyErrorExc ''Close'')
              | Some vs \<Rightarrow> Inr (CloseSeries (zip (index f) vs)))))"

definition close_empty :: "close_data \<Rightarrow> bool" where
  "close_empty c = (case c of CloseSeries s \<Rightarrow> s = [] | CloseFrame cs \<Rightarrow> cs = [] \<or> (\<forall>c \<in> set cs. snd c = []))"

subsection \<open>The Normalizer (line 22)\<close>

text \<open>
  \<open>(data / data.iloc[0]) * 100\<close> on a series: every value divided by the first,
  times 100, in numpy arithmetic. The caller has checked \<open>data.empty\<close>, so the
  empty series (where \<open>iloc[0]\<close> would raise) never reaches it.
\<close>

fun normalize :: "series \<Rightarrow> series" where
  "normalize [] = []"
| "normalize ((d0, x0) # rest) =
     map (\<lambda>(d, x). (d, fl_mul (fl_div x x0) (Num 100))) ((d0, x0) # rest)"

definition normalize_close :: "close_data \<Rightarrow> norm_result" where
  "normalize_close c = (case c of
     CloseSeries s \<Rightarrow> NormSeries (normalize s)
   | CloseFrame cs \<Rightarrow> NormFrame (map (\<lambda>(n, s). (n, normalize s)) cs))"

subsection \<open>\<open>get_normalized_data\<close> (lines 9--26)\<close>

text \<open>
  The messages it shows and the value it returns. Every exception inside the
  \<open>try\<close> (the download's own, and \<open>KeyError\<close> from the column selection)
  ends in the \<open>except\<close> branch: an \<open>st.error\<close> and \<open>None\<close>.
\<close>

definition get_normalized_data :: "source \<Rightarrow> string \<Rightarrow> string \<Rightarrow> string \<Rightarrow> msg list \<times> norm_result option" where
  "get_normalized_data src ticker start end_str =
     (case src ticker start end_str of
        Raises e \<Rightarrow> ([ErrFetch ticker e], None)
      | Returns raw \<Rightarrow>
          (if frame_empty raw then ([WarnNoData ticker], None)
           else (case select_close ticker raw of
                   Inl e \<Rightarrow> ([ErrFetch ticker e], None)
                 | Inr dat \<Rightarrow>
                     (if close_empty dat then ([WarnNoClose ticker], None)
                      else ([], Some (normalize_close dat))))))"

subsection \<open>The loading loop (lines 142--150)\<close>

text \<open>\<open>result.empty\<close> of the returned series or frame.\<close>

definition result_empty :: "norm_result \<Rightarrow> bool" where
  "result_empty r = (case r of NormSeries s \<Rightarrow> s = [] | NormFrame cs \<Rightarrow> cs = [] \<or> (\<forall>c \<in> set cs. snd c = []))"

record load_state =
  data :: "(string, norm_result) pydict"
  log :: "msg list"

text \<open>
  One iteration: the loading message, the messages of \<open>get_normalized_data\<close>, then
  either \<open>data[ticker] = result\<close> or the failure message.
\<close>

definition load_step :: "source \<Rightarrow> string \<Rightarrow> string \<Rightarrow> string \<Rightarrow> load_state \<Rightarrow> load_state" where
  "load_step src start end_str ticker st =
     (let (ms, r) = get_normalized_data src ticker start end_str;
          st' = st\<lparr>log := log st @ Loading ticker # ms\<rparr>
      in case r of
           Some res \<Rightarrow>
             (if \<not> result_empty res then st'\<lparr>data := dict_set ticker res (data st')\<rparr>
              else st'\<lparr>log := log st' @ [ErrLoadFailed ticker]\<rparr>)
         | None \<Rightarrow> st'\<lparr>log := log st' @ [ErrLoadFailed ticker]\<rparr>)"

definition load_all :: "source \<Rightarrow> string \<Rightarrow> string \<Rightarrow> string list \<Rightarrow> load_state" where
  "load_all src start end_str tickers =
     fold (load_step src start end_str) tickers \<lparr>data = [], log = []\<rparr>"

subsection \<open>The loop's contract\<close>

text \<open>
  The spec's description of the loop: a fold over the selection that keeps, in
  selection order, every ticker whose fetch produced a non-empty result, and
  skips the others. \<open>accepted\<close> is the result the loop keeps for one ticker.
\<close>

definition accepted :: "source \<Rightarrow> string \<Rightarrow> string \<Rightarrow> string \<Rightarrow> norm_result option" where
  "accepted src start end_str t =
     (case snd (get_normalized_data src t start end_str) of
        Some r \<Rightarrow> (if result_empty r then None else Some r)
      | None \<Rightarrow> None)"

definition load_spec :: "source \<Rightarrow> string \<Rightarrow> string \<Rightarrow> string list \<Rightarrow> (string, norm_result) pydict" where
  "load_spec src start end_str ts =
     concat (map (\<lambda>t. case accepted src start end_str t of Some r \<Rightarrow> [(t, r)] | None \<Rightarrow> []) ts)"

text \<open>The messages one iteration shows, in order.\<close>

definition load_messages :: "source \<Rightarrow> string \<Rightarrow> string \<Rightarrow> string \<Rightarrow> msg list" where
  "load_messages src start end_str t =
     Loading t # fst (get_normalized_data src t start end_str) @
       (if accepted src start end_str t = None then [ErrLoadFailed t] else [])"

text \<open>A download that raised, or returned a frame pandas could have built.\<close>

fun wf_download :: "download \<Rightarrow> bool" where
  "wf_download (Raises _) = True"
| "wf_download (Returns f) = wf_frame f"

subsection \<open>Sample inputs\<close>

text \<open>
  A two-day frame in yfinance's two-level layout for \<open>GC=F\<close>, and a source that
  returns it for \<open>GC=F\<close> and an empty frame for every other ticker.
\<close>

definition sample_frame :: frame where
  "sample_frame =
     \<lparr>index = [Date 2024 1 2, Date 2024 1 3],
      columns = [(Multi ''Close'' ''GC=F'', [Num 2000, Num 2050]),
                 (Multi ''Open'' ''GC=F'', [Num 1990, Num 2001])]\<rparr>"

definition zero_frame :: frame where
  "zero_frame = \<lparr>index = [Date 2024 1 2, Date 2024 1 3], columns = [(Multi ''Close'' ''GC=F'', [Num 0, Num 2050])]\<rparr>"

definition sample_source :: source where
  "sample_source t s e =
     (if t = ''GC=F'' then Returns sample_frame else Returns \<lparr>index = [], columns = []\<rparr>)"

subsection \<open>The Normalizer\<close>

lemma normalize_dates: "map fst (normalize s) = map fst s"
  by (cases s rule: normalize.cases) (auto simp: case_prod_unfold)

lemma normalize_Nil_iff [simp]: "normalize s = [] \<longleftrightarrow> s = []"
  by (cases s rule: normalize.cases) auto

text \<open>
  C1: when the first closing price is a non-zero number, the first point of the
  normalized series is exactly 100, at the first date.
\<close>

theorem normalize_first_100: "a \<noteq> 0 \<Longrightarrow> hd (normalize ((d, Num a) # rest)) = (d, Num 100)"
  by simp

theorem normalize_first_100_witness:
  "(2000::real) \<noteq> 0 \<and>
   hd (normalize [(Date 2024 1 2, Num 2000), (Date 2024 1 3, Num 2050)]) = (Date 2024 1 2, Num 100)"
  using normalize_first_100 [of 2000 "Date 2024 1 2" "[(Date 2024 1 3, Num 2050)]"] by simp

text \<open>
  C2: normalization is invariant under scaling by a power of two: multiplying every
  closing price by \<open>2^n\<close> leaves the normalized series unchanged, infinities and
  NaN included. The hypotheses are those under which float64 computes the scaled
  prices exactly (\<open>2^n\<close> and every finite price before and after scaling in the
  normal range); then each quotient of line 22 has the same exact value as before
  scaling and rounds to the same float, so the statement holds of float64 as well
  as of this model.
\<close>

theorem normalize_scale:
  assumes "n < 1024"
    and "\<forall>(d, x) \<in> set s. \<forall>a. x = Num a \<longrightarrow> float64_normal a \<and> float64_normal (a * 2 ^ n)"
  shows "normalize (map (\<lambda>(d, x). (d, fl_mul x (Num (2 ^ n)))) s) = normalize s"
proof (cases s rule: normalize.cases)
  case 1
  then show ?thesis by simp
next
  case (2 d0 x0 rest)
  have "(0::real) < 2 ^ n" by simp
  with 2 show ?thesis by (auto simp: fl_div_scale case_prod_unfold)
qed

theorem normalize_scale_witness:
  "(10::nat) < 1024 \<and>
   normalize (map (\<lambda>(d, x). (d, fl_mul x (Num (2 ^ 10))))
       [(Date 2024 1 2, Num 2000), (Date 2024 1 3, Num 2050), (Date 2024 1 4, NaN)]) =
     normalize [(Date 2024 1 2, Num 2000), (Date 2024 1 3, Num 2050), (Date 2024 1 4, NaN)]"
proof -
  have n: "(10::nat) < 1024" by simp
  have p: "(1/2::real) ^ 1022 \<le> 1" by (simp add: power_le_one)
  have h: "\<forall>(d, x) \<in> set [(Date 2024 1 2, Num 2000), (Date 2024 1 3, Num 2050), (Date 2024 1 4, NaN)].
      \<forall>a. x = Num a \<longrightarrow> float64_normal a \<and> float64_normal (a * 2 ^ 10)"
    unfolding float64_normal_def using p by auto
  show ?thesis using conjI [OF n normalize_scale [OF n h]] .
qed

subsection \<open>\<open>get_normalized_data\<close>: its branches\<close>

lemma close_sub_mem:
  "c \<in> set (close_sub idx lv) \<Longrightarrow> \<exists>vs. snd c = zip idx vs \<and> (\<exists>l. (l, vs) = lv)"
  by (cases lv; cases "fst lv") (auto split: if_splits)

lemma select_close_series:
  "select_close t f = Inr (CloseSeries s) \<Longrightarrow> \<exists>l vs. (l, vs) \<in> set (columns f) \<and> s = zip (index f) vs"
  by (auto simp: select_close_def split: option.splits if_splits list.splits dest: map_of_SomeD)

lemma select_close_frame:
  assumes "select_close t f = Inr (CloseFrame cs)"
  shows "cs \<noteq> [] \<and> (\<forall>c \<in> set cs. \<exists>l vs. (l, vs) \<in> set (columns f) \<and> snd c = zip (index f) vs)"
proof -
  have cs: "cs = concat (map (close_sub (index f)) (columns f)) \<and> cs \<noteq> []"
    using assms by (auto simp: select_close_def split: option.splits if_splits list.splits)
  have "\<forall>c \<in> set cs. \<exists>l vs. (l, vs) \<in> set (columns f) \<and> snd c = zip (index f) vs"
  proof
    fix c assume "c \<in> set cs"
    with cs obtain lv where "lv \<in> set (columns f)" "c \<in> set (close_sub (index f) lv)" by auto
    then show "\<exists>l vs. (l, vs) \<in> set (columns f) \<and> snd c = zip (index f) vs"
      by (metis close_sub_mem)
  qed
  with cs show ?thesis by blast
qed

text \<open>On a non-empty well-formed frame, whatever \<open>select_close\<close> selects has rows.\<close>

lemma select_close_nonempty:
  assumes wf: "wf_frame f" and ne: "\<not> frame_empty f" and sel: "select_close t f = Inr dat"
  shows "\<not> close_empty dat"
proof -
  have len: "\<And>l vs. (l, vs) \<in> set (columns f) \<Longrightarrow> zip (index f) vs \<noteq> []"
    using wf ne by (fastforce simp: wf_frame_def frame_empty_def)
  show ?thesis
  proof (cases dat)
    case (CloseSeries s)
    with sel len show ?thesis by (auto simp: close_empty_def dest!: select_close_series)
  next
    case (CloseFrame cs)
    with sel have "cs \<noteq> [] \<and> (\<forall>c \<in> set cs. \<exists>l vs. (l, vs) \<in> set (columns f) \<and> snd c = zip (index f) vs)"
      by (simp add: select_close_frame)
    with CloseFrame len show ?thesis by (fastforce simp: close_empty_def neq_Nil_conv)
  qed
qed

lemma result_empty_normalize_close [simp]: "result_empty (normalize_close c) = close_empty c"
  by (cases c) (auto simp: normalize_close_def result_empty_def close_empty_def case_prod_unfold)

text \<open>
  C5: the main path. When the download returns a well-formed frame with rows and
  the two-level column \<open>('Close', ticker)\<close>, the function shows no message and
  returns that column normalized.
\<close>

theorem gnd_close_column:
  assumes src: "src t s e = Returns raw" and wf: "wf_frame raw" and rows: "index raw \<noteq> []"
    and col: "map_of (columns raw) (Multi ''Close'' t) = Some vs"
  shows "get_normalized_data src t s e = ([], Some (NormSeries (normalize (zip (index raw) vs))))"
proof -
  have ne: "\<not> frame_empty raw" using rows col by (auto simp: frame_empty_def)
  have sel: "select_close t raw = Inr (CloseSeries (zip (index raw) vs))"
    using col by (simp add: select_close_def)
  have "\<not> close_empty (CloseSeries (zip (index raw) vs))"
    using select_close_nonempty [OF wf ne sel] .
  with src ne sel show ?thesis by (simp add: get_normalized_data_def normalize_close_def)
qed

theorem gnd_close_column_witness:
  "sample_source ''GC=F'' ''2024-01-01'' ''2024-01-04'' = Returns sample_frame \<and> wf_frame sample_frame \<and>
   index sample_frame \<noteq> [] \<and>
   map_of (columns sample_frame) (Multi ''Close'' ''GC=F'') = Some [Num 2000, Num 2050] \<and>
   get_normalized_data sample_source ''GC=F'' ''2024-01-01'' ''2024-01-04'' =
     ([], Some (NormSeries [(Date 2024 1 2, Num 100), (Date 2024 1 3, Num 102.5)]))"
proof -
  have src: "sample_source ''GC=F'' ''2024-01-01'' ''2024-01-04'' = Returns sample_frame"
    by (simp add: sample_source_def)
  have wf: "wf_frame sample_frame"
    by (simp add: wf_frame_def sample_frame_def date_less_iff)
  have rows: "index sample_frame \<noteq> []" by (simp add: sample_frame_def)
  have col: "map_of (columns sample_frame) (Multi ''Close'' ''GC=F'') = Some [Num 2000, Num 2050]"
    by (simp add: sample_frame_def)
  show ?thesis
    using gnd_close_column [of sample_source "''GC=F''" "''2024-01-01''" "''2024-01-04''" sample_frame
        "[Num 2000, Num 2050]", OF src wf rows col] src wf rows col
    by (simp add: sample_frame_def)
qed

text \<open>
  C8: the code does not guard a zero first price (the spec asks for a guard and a
  first point of 100). A download whose \<open>('Close', ticker)\<close> column starts with
  0 passes every check of \<open>get_normalized_data\<close> silently and yields a series
  over all its dates in which no point is a number: the first is NaN, the others
  infinities or NaN. The loop then keeps it as a successful ticker.
\<close>

theorem gnd_first_close_zero:
  assumes src: "src t s e = Returns raw" and wf: "wf_frame raw"
    and col: "map_of (columns raw) (Multi ''Close'' t) = Some (Num 0 # vs)"
  shows "\<exists>r. get_normalized_data src t s e = ([], Some (NormSeries r)) \<and> map fst r = index raw \<and>
           (\<forall>p \<in> set r. \<forall>a. snd p \<noteq> Num a)"
proof -
  have len: "length (Num 0 # vs) = length (index raw)"
    using wf col by (auto simp: wf_frame_def dest: map_of_SomeD)
  then obtain d0 ds where idx: "index raw = d0 # ds" by (cases "index raw") auto
  have ne: "\<not> frame_empty raw" using idx col by (auto simp: frame_empty_def)
  have sel: "select_close t raw = Inr (CloseSeries (zip (index raw) (Num 0 # vs)))"
    using col by (simp add: select_close_def)
  have "\<not> close_empty (CloseSeries (zip (index raw) (Num 0 # vs)))"
    using select_close_nonempty [OF wf ne sel] .
  then have gnd: "get_normalized_data src t s e = ([], Some (NormSeries (normalize (zip (index raw) (Num 0 # vs)))))"
    using src ne sel by (simp add: get_normalized_data_def normalize_close_def)
  have "map fst (normalize (zip (index raw) (Num 0 # vs))) = index raw"
    using len by (simp add: normalize_dates)
  moreover have "\<forall>p \<in> set (normalize (zip (index raw) (Num 0 # vs))). \<forall>a. snd p \<noteq> Num a"
    using fl_zero_base_not_num by (auto simp: idx)
  ultimately show ?thesis using gnd by blast
qed

theorem gnd_first_close_zero_witness:
  "wf_frame zero_frame \<and> map_of (columns zero_frame) (Multi ''Close'' ''GC=F'') = Some (Num 0 # [Num 2050]) \<and>
   (\<exists>r. get_normalized_data (\<lambda>_ _ _. Returns zero_frame) ''GC=F'' ''2024-01-01'' ''2024-01-04'' =
      ([], Some (NormSeries r)) \<and> map fst r = [Date 2024 1 2, Date 2024 1 3])"
proof -
  have src: "(\<lambda>_ _ _. Returns zero_frame) ''GC=F'' ''2024-01-01'' ''2024-01-04'' = Returns zero_frame" by simp
  have wf: "wf_frame zero_frame" by (simp add: wf_frame_def zero_frame_def date_less_iff)
  have col: "map_of (columns zero_frame) (Multi ''Close'' ''GC=F'') = Some (Num 0 # [Num 2050])"
    by (simp add: zero_frame_def)
  obtain r where "get_normalized_data (\<lambda>_ _ _. Returns zero_frame) ''GC=F'' ''2024-01-01'' ''2024-01-04'' =
      ([], Some (NormSeries r))" and "map fst r = index zero_frame"
    using gnd_first_close_zero [OF src wf col] by blast
  then show ?thesis using wf col by (auto simp: zero_frame_def)
qed

text \<open>
  C6: a non-empty frame with no closing-price column at all does not take the
  spec's "no data" path: \<open>raw['Close']\<close> raises \<open>KeyError\<close>, and the function
  reports it as a fetch error.
\<close>

theorem gnd_missing_close:
  assumes src: "src t s e = Returns raw" and ne: "\<not> frame_empty raw"
    and none: "\<forall>c \<in> set (columns raw). fst c \<noteq> Flat ''Close'' \<and> (\<forall>x. fst c \<noteq> Multi ''Close'' x)"
  shows "get_normalized_data src t s e = ([ErrFetch t (KeyErrorExc ''Close'')], None)"
proof -
  have m: "map_of (columns raw) (Multi ''Close'' t) = None" "map_of (columns raw) (Flat ''Close'') = None"
    using none by (fastforce simp: map_of_eq_None_iff)+
  have "\<forall>c \<in> set (columns raw). close_sub (index raw) c = []"
  proof
    fix c assume "c \<in> set (columns raw)"
    with none have "\<forall>x. fst c \<noteq> Multi ''Close'' x" by blast
    then show "close_sub (index raw) c = []"
      by (cases c; cases "fst c") auto
  qed
  then have c: "concat (map (close_sub (index raw)) (columns raw)) = []" by simp
  have "select_close t raw = Inl (KeyErrorExc ''Close'')"
    by (simp add: select_close_def m c)
  with src ne show ?thesis by (simp add: get_normalized_data_def)
qed

theorem gnd_missing_close_witness:
  "(\<lambda>_ _ _. Returns \<lparr>index = [Date 2024 1 2], columns = [(Flat ''Open'', [Num 1])]\<rparr>) ''AAPL'' ''2024-01-01'' ''2024-01-04''
     = Returns \<lparr>index = [Date 2024 1 2], columns = [(Flat ''Open'', [Num 1])]\<rparr> \<and>
   \<not> frame_empty \<lparr>index = [Date 2024 1 2], columns = [(Flat ''Open'', [Num 1])]\<rparr> \<and>
   get_normalized_data (\<lambda>_ _ _. Returns \<lparr>index = [Date 2024 1 2], columns = [(Flat ''Open'', [Num 1])]\<rparr>)
     ''AAPL'' ''2024-01-01'' ''2024-01-04'' = ([ErrFetch ''AAPL'' (KeyErrorExc ''Close'')], None)"
  using gnd_missing_close [of "\<lambda>_ _ _. Returns \<lparr>index = [Date 2024 1 2], columns = [(Flat ''Open'', [Num 1])]\<rparr>"
      "''AAPL''" "''2024-01-01''" "''2024-01-04''" "\<lparr>index = [Date 2024 1 2], columns = [(Flat ''Open'', [Num 1])]\<rparr>"]
  by (simp add: frame_empty_def)

text \<open>
  C7: the second warning of \<open>get_normalized_data\<close> (line 20, "no closing data")
  is dead code: on a frame pandas can build, a non-empty frame never yields an
  empty closing-price selection, so that message is never shown.
\<close>

theorem gnd_no_close_warning_dead:
  assumes wf: "wf_download (src t s e)"
  shows "WarnNoClose t \<notin> set (fst (get_normalized_data src t s e))"
proof (cases "src t s e")
  case (Raises x)
  then show ?thesis by (simp add: get_normalized_data_def)
next
  case (Returns raw)
  with wf have wfr: "wf_frame raw" by simp
  show ?thesis
  proof (cases "frame_empty raw")
    case True
    with Returns show ?thesis by (simp add: get_normalized_data_def)
  next
    case False
    show ?thesis
    proof (cases "select_close t raw")
      case (Inl x)
      with Returns False show ?thesis by (simp add: get_normalized_data_def)
    next
      case (Inr dat)
      with select_close_nonempty [OF wfr False] have "\<not> close_empty dat" by blast
      with Returns False Inr show ?thesis by (simp add: get_normalized_data_def)
    qed
  qed
qed

theorem gnd_no_close_warning_dead_witness:
  "wf_download (sample_source ''GC=F'' ''2024-01-01'' ''2024-01-04'') \<and>
   WarnNoClose ''GC=F'' \<notin> set (fst (get_normalized_data sample_source ''GC=F'' ''2024-01-01'' ''2024-01-04''))"
proof -
  have wf: "wf_download (sample_source ''GC=F'' ''2024-01-01'' ''2024-01-04'')"
    by (simp add: sample_source_def wf_frame_def sample_frame_def date_less_iff)
  show ?thesis
    using wf gnd_no_close_warning_dead [of sample_source "''GC=F''" "''2024-01-01''" "''2024-01-04''", OF wf]
    by simp
qed

text \<open>
  Under the same condition a returned result is never empty, so the caller's
  \<open>not result.empty\<close> test (line 147) never rejects one: the loop keeps exactly
  what \<open>get_normalized_data\<close> returns.
\<close>

lemma accepted_wf:
  assumes wf: "wf_download (src t s e)"
  shows "accepted src s e t = snd (get_normalized_data src t s e)"
proof (cases "src t s e")
  case (Raises x)
  then show ?thesis by (simp add: accepted_def get_normalized_data_def)
next
  case (Returns raw)
  with wf have wfr: "wf_frame raw" by simp
  have "\<And>dat. \<not> frame_empty raw \<Longrightarrow> select_close t raw = Inr dat \<Longrightarrow> \<not> close_empty dat"
    using select_close_nonempty [OF wfr] by blast
  with Returns show ?thesis
    by (auto simp: accepted_def get_normalized_data_def split: sum.splits)
qed

subsection \<open>The loading loop\<close>

lemma load_step_data:
  "data (load_step src s e t st) =
     (case accepted src s e t of Some r \<Rightarrow> dict_set t r (data st) | None \<Rightarrow> data st)"
  by (auto simp: load_step_def accepted_def split: prod.splits option.splits)

lemma load_step_log:
  "log (load_step src s e t st) = log st @ load_messages src s e t"
  by (auto simp: load_step_def accepted_def load_messages_def split: prod.splits option.splits)

lemma load_fold:
  "data (fold (load_step src s e) ts st) =
     fold (\<lambda>t d. case accepted src s e t of Some r \<Rightarrow> dict_set t r d | None \<Rightarrow> d) ts (data st) \<and>
   log (fold (load_step src s e) ts st) = log st @ concat (map (load_messages src s e) ts)"
  by (induction ts arbitrary: st) (simp_all add: load_step_data load_step_log)

lemma load_all_keys: "set (map fst (data (load_all src s e ts))) \<subseteq> set ts"
  using load_fold [of src s e ts "\<lparr>data = [], log = []\<rparr>"]
    dict_fold_option_keys [of "accepted src s e" ts "[]"]
  by (simp add: load_all_def)

lemma load_all_results:
  "(t, r) \<in> set (data (load_all src s e ts)) \<Longrightarrow> accepted src s e t = Some r \<and> \<not> result_empty r"
  using load_fold [of src s e ts "\<lparr>data = [], log = []\<rparr>"] dict_fold_option_pairs [of "accepted src s e" ts "[]"]
  by (auto simp: load_all_def accepted_def split: option.splits if_splits)

lemma gnd_no_final_message: "ErrNoValidData \<notin> set (fst (get_normalized_data src t s e))"
  by (auto simp: get_normalized_data_def split: download.splits if_splits sum.splits)

lemma load_all_no_final_message: "ErrNoValidData \<notin> set (log (load_all src s e ts))"
  using load_fold [of src s e ts "\<lparr>data = [], log = []\<rparr>"] gnd_no_final_message [of src _ s e]
  by (auto simp: load_all_def load_messages_def)

text \<open>
  C3: the loop implements the spec's fold. For a selection without repeated
  tickers, \<open>data\<close> holds, in selection order, exactly the tickers whose fetch
  succeeded, each with its normalized result; a failed ticker is absent (not
  zero-filled).
\<close>

theorem load_all_refines:
  "distinct ts \<Longrightarrow> data (load_all src s e ts) = load_spec src s e ts"
  using load_fold [of src s e ts "\<lparr>data = [], log = []\<rparr>"]
  by (simp add: load_all_def load_spec_def dict_fold_option_distinct)

theorem load_all_refines_witness:
  "distinct [''GC=F'', ''TSLA''] \<and>
   data (load_all sample_source ''2024-01-01'' ''2024-01-04'' [''GC=F'', ''TSLA'']) =
     [(''GC=F'', NormSeries [(Date 2024 1 2, Num 100), (Date 2024 1 3, Num 102.5)])]"
proof -
  have d: "distinct [''GC=F'', ''TSLA'']" by simp
  show ?thesis
    using d load_all_refines [OF d, of sample_source "''2024-01-01''" "''2024-01-04''"]
    by (simp add: load_spec_def accepted_def get_normalized_data_def sample_source_def
        sample_frame_def frame_empty_def select_close_def close_empty_def normalize_close_def
        result_empty_def)
qed

text \<open>
  C4: the messages of the loop, in order: for each selected ticker, the loading
  message, the messages of \<open>get_normalized_data\<close>, and the failure message
  exactly when the ticker was not kept. A failure of one ticker does not stop the
  loop.
\<close>

theorem load_all_log:
  "log (load_all src s e ts) = concat (map (load_messages src s e) ts)"
  using load_fold [of src s e ts "\<lparr>data = [], log = []\<rparr>"] by (simp add: load_all_def)

end
