(* ===== verification/Table.thy ===== *)
theory Table
  imports Fetch
begin

text \<open>
  The comparison table (lines 153--158 of \<open>src/idl/app.py\<close>): \<open>pd.DataFrame(data)\<close>
  of the loaded series, whose columns are then renamed with
  \<open>ticker_to_name.get(ticker, ticker)\<close>. pandas aligns a dictionary of series on
  the union of their date indexes, sorted, and fills a date a series lacks with
  NaN. A value of \<open>data\<close> that is itself a frame (the \<open>raw['Close']\<close> sub-frame
  of \<open>get_normalized_data\<close>) is outside what this model follows: building the
  table from it is reported as an error value.
\<close>

record table =
  tindex :: "date list"
  tcols :: "(string \<times> fl list) list"

datatype table_error = FrameValued string

text \<open>The series of each ticker, or the first ticker whose result is a frame.\<close>

fun series_of_results :: "(string, norm_result) pydict \<Rightarrow> table_error + (string, series) pydict" where
  "series_of_results [] = Inr []"
| "series_of_results ((t, NormFrame _) # rest) = Inl (FrameValued t)"
| "series_of_results ((t, NormSeries s) # rest) =
     (case series_of_results rest of Inl e \<Rightarrow> Inl e | Inr d \<Rightarrow> Inr ((t, s) # d))"

text \<open>A series reindexed on the table's dates: its value where it has the date, NaN elsewhere.\<close>

definition align :: "series \<Rightarrow> date list \<Rightarrow> fl list" where
  "align s idx = map (\<lambda>d. case map_of s d of Some v \<Rightarrow> v | None \<Rightarrow> NaN) idx"

definition union_index :: "(string, series) pydict \<Rightarrow> date list" where
  "union_index d = sorted_list_of_set (\<Union>(k, s) \<in> set d. set (map fst s))"

definition frame_of_dict :: "(string, series) pydict \<Rightarrow> table" where
  "frame_of_dict d =
     (let idx = union_index d in \<lparr>tindex = idx, tcols = map (\<lambda>(k, s). (k, align s idx)) d\<rparr>)"

text \<open>Line 158: each column named by \<open>ticker_to_name\<close>, or kept when the ticker is missing.\<close>

definition rename_columns :: "(string, string) pydict \<Rightarrow> table \<Rightarrow> table" where
  "rename_columns t2n tb =
     tb\<lparr>tcols := map (\<lambda>(k, vs). (case map_of t2n k of Some n \<Rightarrow> n | None \<Rightarrow> k, vs)) (tcols tb)\<rparr>"

definition build_df :: "(string, norm_result) pydict \<Rightarrow> (string, string) pydict \<Rightarrow> table_error + table" where
  "build_df loaded t2n =
     (case series_of_results loaded of
        Inl e \<Rightarrow> Inl e
      | Inr d \<Rightarrow> Inr (rename_columns t2n (frame_of_dict d)))"

text \<open>A series as yfinance's index makes it: dates strictly increasing.\<close>

definition wf_series :: "series \<Rightarrow> bool" where
  "wf_series s \<longleftrightarrow> sorted_wrt (<) (map fst s)"

text \<open>Two sample series: gold from 2 January 2024, an equity from 3 January only.\<close>

definition sample_dict :: "(string, series) pydict" where
  "sample_dict =
     [(''GC=F'', [(Date 2024 1 2, Num 100), (Date 2024 1 3, Num 102.5)]),
      (''AC.PA'', [(Date 2024 1 3, Num 100)])]"

subsection \<open>Column names\<close>

lemma series_of_results_keys: "series_of_results l = Inr d \<Longrightarrow> map fst d = map fst l"
  by (induction l arbitrary: d rule: series_of_results.induct) (auto split: sum.splits)

lemma build_df_names:
  assumes "build_df loaded t2n = Inr tb"
  shows "map fst (tcols tb) = map (\<lambda>k. case map_of t2n k of Some n \<Rightarrow> n | None \<Rightarrow> k) (map fst loaded)"
proof -
  obtain d where d: "series_of_results loaded = Inr d" and tb: "tb = rename_columns t2n (frame_of_dict d)"
    using assms by (auto simp: build_df_def split: sum.splits)
  have "map fst (tcols tb) = map (\<lambda>k. case map_of t2n k of Some n \<Rightarrow> n | None \<Rightarrow> k) (map fst d)"
    by (simp add: tb rename_columns_def frame_of_dict_def Let_def case_prod_unfold split: option.split)
  then show ?thesis using series_of_results_keys [OF d] by simp
qed

lemma series_of_results_mem: "series_of_results l = Inr d \<Longrightarrow> (k, s) \<in> set d \<Longrightarrow> (k, NormSeries s) \<in> set l"
  by (induction l arbitrary: d rule: series_of_results.induct) (auto split: sum.splits)

subsection \<open>The union index\<close>

lemma union_index_set: "set (union_index d) = (\<Union>(k, s) \<in> set d. set (map fst s))"
  unfolding union_index_def by (rule set_sorted_list_of_set) auto

lemma union_index_strict: "sorted_wrt (<) (union_index d)"
  by (simp add: union_index_def strict_sorted_list_of_set)

lemma length_align [simp]: "length (align s idx) = length idx"
  by (simp add: align_def)

lemma zip_align: "zip idx (align s idx) = map (\<lambda>x. (x, case map_of s x of Some v \<Rightarrow> v | None \<Rightarrow> NaN)) idx"
  by (simp add: align_def zip_map2 zip_same_conv_map comp_def)

lemma align_same: "distinct (map fst s) \<Longrightarrow> align s (map fst s) = map snd s"
proof -
  assume dist: "distinct (map fst s)"
  have "\<And>p. p \<in> set s \<Longrightarrow> map_of s (fst p) = Some (snd p)"
    using dist by (auto intro: map_of_is_SomeI)
  then show ?thesis by (simp add: align_def)
qed

subsection \<open>What \<open>pd.DataFrame(data)\<close> guarantees\<close>

lemma frame_of_dict_col:
  assumes "distinct (map fst d)" "(k, s) \<in> set d"
  shows "map_of (tcols (frame_of_dict d)) k = Some (align s (tindex (frame_of_dict d)))"
proof -
  have "map_of d k = Some s" using assms by (rule map_of_is_SomeI)
  then show ?thesis by (simp add: frame_of_dict_def Let_def map_of_map)
qed

text \<open>A table built from non-empty results has no empty column.\<close>

lemma build_df_columns_nonempty:
  assumes tb: "build_df l t2n = Inr tb" and ne: "l \<noteq> []"
    and results: "\<forall>(k, r) \<in> set l. \<not> result_empty r"
  shows "\<forall>c \<in> set (tcols tb). snd c \<noteq> []"
proof -
  obtain d where d: "series_of_results l = Inr d" and tb': "tb = rename_columns t2n (frame_of_dict d)"
    using tb by (auto simp: build_df_def split: sum.splits)
  have "map fst d = map fst l" using d by (rule series_of_results_keys)
  with ne obtain k s where ks: "(k, s) \<in> set d" by (cases d) auto
  then have "s \<noteq> []" using series_of_results_mem [OF d ks] results by (auto simp: result_empty_def)
  with ks obtain x where "x \<in> set (union_index d)" by (force simp: union_index_set neq_Nil_conv)
  then have "union_index d \<noteq> []" by auto
  then show ?thesis by (auto simp: tb' rename_columns_def frame_of_dict_def Let_def align_def)
qed

lemma sample_dict_frame:
  "frame_of_dict sample_dict =
     \<lparr>tindex = [Date 2024 1 2, Date 2024 1 3],
      tcols = [(''GC=F'', [Num 100, Num 102.5]), (''AC.PA'', [NaN, Num 100])]\<rparr>"
  unfolding frame_of_dict_def union_index_def align_def sample_dict_def by code_simp

text \<open>
  C16: the table pandas builds from \<open>data\<close> (distinct tickers): its index is the
  strictly increasing union of the series' dates, and the column of each ticker
  holds, at every date of the index, the series' value there, or NaN where the
  series has no observation.
\<close>

theorem frame_of_dict_column:
  assumes "distinct (map fst d)" "(k, s) \<in> set d"
  shows "map_of (tcols (frame_of_dict d)) k =
           Some (map (\<lambda>x. case map_of s x of Some v \<Rightarrow> v | None \<Rightarrow> NaN) (tindex (frame_of_dict d))) \<and>
         set (tindex (frame_of_dict d)) = (\<Union>(k', s') \<in> set d. set (map fst s')) \<and>
         sorted_wrt (<) (tindex (frame_of_dict d))"
  using frame_of_dict_col [OF assms]
  by (simp add: align_def frame_of_dict_def Let_def union_index_set union_index_strict)

theorem frame_of_dict_column_witness:
  "distinct (map fst sample_dict) \<and> (''AC.PA'', [(Date 2024 1 3, Num 100)]) \<in> set sample_dict \<and>
   map_of (tcols (frame_of_dict sample_dict)) ''AC.PA'' = Some [NaN, Num 100]"
proof -
  have h: "distinct (map fst sample_dict)" "(''AC.PA'', [(Date 2024 1 3, Num 100)]) \<in> set sample_dict"
    by (simp_all add: sample_dict_def)
  show ?thesis using h frame_of_dict_column [OF h] by (simp add: sample_dict_frame)
qed

text \<open>
  C17: the outer join loses no observation: every (date, value) of a loaded
  series appears in that ticker's column of the table, at that date.
\<close>

theorem frame_of_dict_keeps:
  assumes "distinct (map fst d)" "(k, s) \<in> set d" "distinct (map fst s)" "(x, v) \<in> set s"
  shows "\<exists>col. map_of (tcols (frame_of_dict d)) k = Some col \<and> (x, v) \<in> set (zip (tindex (frame_of_dict d)) col)"
proof -
  have "x \<in> set (tindex (frame_of_dict d))"
    using assms(2,4) by (force simp: frame_of_dict_def union_index_set Let_def)
  moreover have "map_of s x = Some v" using assms(3,4) by (rule map_of_is_SomeI)
  ultimately show ?thesis using frame_of_dict_col [OF assms(1,2)] by (force simp: zip_align)
qed

theorem frame_of_dict_keeps_witness:
  "(Date 2024 1 3, Num 100) \<in> set (zip [Date 2024 1 2, Date 2024 1 3] [NaN, Num 100]) \<and>
   (\<exists>col. map_of (tcols (frame_of_dict sample_dict)) ''AC.PA'' = Some col \<and>
      (Date 2024 1 3, Num 100) \<in> set (zip (tindex (frame_of_dict sample_dict)) col))"
proof -
  have h: "distinct (map fst sample_dict)" "(''AC.PA'', [(Date 2024 1 3, Num 100)]) \<in> set sample_dict"
    "distinct (map fst [(Date 2024 1 3, Num 100)])" "(Date 2024 1 3, Num 100) \<in> set [(Date 2024 1 3, Num 100)]"
    by (simp_all add: sample_dict_def)
  show ?thesis using frame_of_dict_keeps [OF h] by simp
qed

text \<open>
  C18: a date of the table at which a loaded series has no observation holds NaN
  in that ticker's column (pandas' alignment), not a zero or a carried value.
\<close>

theorem frame_of_dict_nan:
  assumes "distinct (map fst d)" "(k, s) \<in> set d"
    and "x \<in> set (tindex (frame_of_dict d))" "x \<notin> set (map fst s)"
  shows "\<exists>col. map_of (tcols (frame_of_dict d)) k = Some col \<and> (x, NaN) \<in> set (zip (tindex (frame_of_dict d)) col)"
proof -
  have "map_of s x = None" using assms(4) by (simp add: map_of_eq_None_iff)
  with assms(3) show ?thesis using frame_of_dict_col [OF assms(1,2)] by (force simp: zip_align)
qed

theorem frame_of_dict_nan_witness:
  "Date 2024 1 2 \<in> set (tindex (frame_of_dict sample_dict)) \<and>
   (\<exists>col. map_of (tcols (frame_of_dict sample_dict)) ''AC.PA'' = Some col \<and>
      (Date 2024 1 2, NaN) \<in> set (zip (tindex (frame_of_dict sample_dict)) col))"
proof -
  have h: "distinct (map fst sample_dict)" "(''AC.PA'', [(Date 2024 1 3, Num 100)]) \<in> set sample_dict"
    "Date 2024 1 2 \<in> set (tindex (frame_of_dict sample_dict))" "Date 2024 1 2 \<notin> set (map fst [(Date 2024 1 3, Num 100)])"
    by (simp_all only: sample_dict_frame) (simp_all add: sample_dict_def)
  show ?thesis using h(3) frame_of_dict_nan [OF h] by simp
qed

text \<open>
  C19: when all loaded series have the same strictly increasing dates (assets on
  one trading calendar), the table is just those series side by side: no NaN is
  introduced.
\<close>

theorem frame_of_dict_same_dates:
  assumes same: "\<forall>(k, s) \<in> set d. map fst s = ds" and sorted: "sorted_wrt (<) ds" and ne: "d \<noteq> []"
  shows "frame_of_dict d = \<lparr>tindex = ds, tcols = map (\<lambda>(k, s). (k, map snd s)) d\<rparr>"
proof -
  have "(\<Union>(k, s) \<in> set d. set (map fst s)) = set ds"
    using same ne by (fastforce simp: neq_Nil_conv)
  then have idx: "union_index d = ds"
    using sorted by (simp add: union_index_def sorted_list_of_set_unique [symmetric] strict_sorted_iff distinct_card)
  have dist: "distinct ds" using sorted by (simp add: strict_sorted_iff)
  have "\<forall>(k, s) \<in> set d. align s ds = map snd s"
    using same dist align_same by fastforce
  then show ?thesis
    by (simp add: frame_of_dict_def idx Let_def case_prod_unfold)
qed

theorem frame_of_dict_same_dates_witness:
  "sorted_wrt (<) [Date 2024 1 2] \<and>
   frame_of_dict [(''GC=F'', [(Date 2024 1 2, Num 100)]), (''SI=F'', [(Date 2024 1 2, Num 100)])] =
     \<lparr>tindex = [Date 2024 1 2], tcols = [(''GC=F'', [Num 100]), (''SI=F'', [Num 100])]\<rparr>"
proof -
  have h: "\<forall>(k, s) \<in> set [(''GC=F'', [(Date 2024 1 2, Num 100)]), (''SI=F'', [(Date 2024 1 2, Num 100)])].
      map fst s = [Date 2024 1 2]" "sorted_wrt (<) [Date 2024 1 2]"
    "[(''GC=F'', [(Date 2024 1 2, Num 100)]), (''SI=F'', [(Date 2024 1 2, Num 100)])] \<noteq> []"
    by simp_all
  show ?thesis using h frame_of_dict_same_dates [OF h] by simp
qed

end
