(* ===== verification/Returns.thy ===== *)
theory Returns
  imports Table
begin

text \<open>
  The Return Calculator (lines 242--253 of \<open>src/idl/app.py\<close>): for every column of
  the table, \<open>if df[column].iloc[-1] and df[column].iloc[0]\<close> then
  \<open>returns[column] = round((last - first) / first * 100, 2)\<close>; then one line per
  computed return, or a single "no computable return" line. The values are numpy
  floats (theory \<open>Floats\<close>), so the guard is Python's truth value of a float,
  which is true for NaN.
\<close>

datatype py_error = IndexError

datatype report_msg = ReturnsHeader | ReturnLine string fl | NoComputableReturn

text \<open>\<open>iloc[0]\<close> and \<open>iloc[-1]\<close> of a column; both raise \<open>IndexError\<close> on an empty column.\<close>

definition column_ends :: "fl list \<Rightarrow> py_error + fl \<times> fl" where
  "column_ends vs = (case vs of [] \<Rightarrow> Inl IndexError | x # _ \<Rightarrow> Inr (x, last vs))"

definition total_return :: "fl \<Rightarrow> fl \<Rightarrow> fl" where
  "total_return first lst = fl_round2 (fl_mul (fl_div (fl_sub lst first) first) (Num 100))"

text \<open>One iteration of lines 245--248.\<close>

definition return_step :: "string \<times> fl list \<Rightarrow> py_error + (string, fl) pydict \<Rightarrow> py_error + (string, fl) pydict" where
  "return_step col acc =
     (case acc of Inl e \<Rightarrow> Inl e
      | Inr rets \<Rightarrow>
          (case column_ends (snd col) of
             Inl e \<Rightarrow> Inl e
           | Inr (first, lst) \<Rightarrow>
               (if fl_truthy lst \<and> fl_truthy first
                then Inr (dict_set (fst col) (total_return first lst) rets)
                else Inr rets)))"

definition compute_returns :: "table \<Rightarrow> py_error + (string, fl) pydict" where
  "compute_returns tb = fold return_step (tcols tb) (Inr [])"

text \<open>Lines 243 and 249--253: the messages written.\<close>

definition report_returns :: "(string, fl) pydict \<Rightarrow> report_msg list" where
  "report_returns rets =
     ReturnsHeader # (if rets \<noteq> [] then map (\<lambda>(a, v). ReturnLine a v) rets else [NoComputableReturn])"

text \<open>The spec's reading of the loop: the kept assets in column order, each with its return.\<close>

definition returns_spec :: "table \<Rightarrow> (string, fl) pydict" where
  "returns_spec tb =
     concat (map (\<lambda>(a, vs). if fl_truthy (last vs) \<and> fl_truthy (hd vs) then [(a, total_return (hd vs) (last vs))] else [])
       (tcols tb))"

subsection \<open>The loop\<close>

lemma return_step_nonempty:
  "vs \<noteq> [] \<Longrightarrow> return_step (a, vs) (Inr d) =
     (if fl_truthy (last vs) \<and> fl_truthy (hd vs) then Inr (dict_set a (total_return (hd vs) (last vs)) d) else Inr d)"
  by (cases vs) (simp_all add: return_step_def column_ends_def)

lemma return_fold:
  "distinct (map fst cols) \<Longrightarrow> set (map fst cols) \<inter> set (map fst d0) = {} \<Longrightarrow> (\<forall>c \<in> set cols. snd c \<noteq> []) \<Longrightarrow>
   fold return_step cols (Inr d0) =
     Inr (d0 @ concat (map (\<lambda>(a, vs). if fl_truthy (last vs) \<and> fl_truthy (hd vs) then [(a, total_return (hd vs) (last vs))] else []) cols))"
proof (induction cols arbitrary: d0)
  case Nil
  then show ?case by simp
next
  case (Cons c cols)
  obtain a vs where c: "c = (a, vs)" by (cases c)
  with Cons.prems have ne: "vs \<noteq> []" by auto
  have new: "a \<notin> set (map fst d0)" using Cons.prems(2) c by auto
  then have upd: "\<And>v. dict_set a v d0 = d0 @ [(a, v)]" by (induction d0) auto
  show ?case
  proof (cases "fl_truthy (last vs) \<and> fl_truthy (hd vs)")
    case True
    have "set (map fst cols) \<inter> set (map fst (d0 @ [(a, total_return (hd vs) (last vs))])) = {}"
      using Cons.prems c by auto
    with Cons.prems Cons.IH [of "d0 @ [(a, total_return (hd vs) (last vs))]"] True c ne upd show ?thesis
      by (simp add: return_step_nonempty)
  next
    case False
    then have step: "return_step (a, vs) (Inr d0) = Inr d0"
      using ne by (auto simp: return_step_nonempty)
    have "set (map fst cols) \<inter> set (map fst d0) = {}" using Cons.prems by auto
    with Cons.prems Cons.IH [of d0] False c step show ?thesis by simp
  qed
qed

lemma return_fold_total: "\<forall>c \<in> set cols. snd c \<noteq> [] \<Longrightarrow> \<exists>r. fold return_step cols (Inr d0) = Inr r"
proof (induction cols arbitrary: d0)
  case Nil
  then show ?case by simp
next
  case (Cons c cols)
  obtain a vs where c: "c = (a, vs)" and ne: "vs \<noteq> []" using Cons.prems by (cases c) auto
  have "\<exists>d1. return_step c (Inr d0) = Inr d1" using ne c by (auto simp: return_step_nonempty)
  then obtain d1 where "return_step c (Inr d0) = Inr d1" ..
  then show ?case using Cons by simp
qed

lemma return_fold_Inl [simp]: "fold return_step cols (Inl err) = Inl err"
  by (induction cols) (simp_all add: return_step_def)

lemma return_step_keys:
  "return_step c (Inr d0) = Inr d1 \<Longrightarrow> set (map fst d1) \<subseteq> insert (fst c) (set (map fst d0))"
  by (auto simp: return_step_def split: sum.splits prod.splits if_splits dest: dict_set_pairs [THEN subsetD])

lemma return_fold_keys: "fold return_step cols (Inr d0) = Inr r \<Longrightarrow> set (map fst r) \<subseteq> set (map fst d0) \<union> set (map fst cols)"
proof (induction cols arbitrary: d0)
  case Nil
  then show ?case by simp
next
  case (Cons c cols)
  show ?case
  proof (cases "return_step c (Inr d0)")
    case (Inl err)
    then show ?thesis using Cons.prems by simp
  next
    case (Inr d1)
    then show ?thesis using Cons.IH [of d1] Cons.prems return_step_keys [OF Inr] by auto
  qed
qed

text \<open>
  C20: on a table with distinct, non-empty columns the loop raises nothing and
  returns, in column order, exactly the assets whose first and last values are
  truthy, each with \<open>round((last - first) / first * 100, 2)\<close>.
\<close>

theorem compute_returns_spec:
  "distinct (map fst (tcols tb)) \<Longrightarrow> (\<forall>c \<in> set (tcols tb). snd c \<noteq> []) \<Longrightarrow>
   compute_returns tb = Inr (returns_spec tb)"
  using return_fold [of "tcols tb" "[]"] by (simp add: compute_returns_def returns_spec_def)

theorem compute_returns_spec_witness:
  "distinct (map fst [(''Or'', [Num 100, Num 150, Num 80]), (''Argent'', [Num 0, Num 3])]) \<and>
   compute_returns \<lparr>tindex = [Date 2024 1 2, Date 2024 1 3, Date 2024 1 4],
       tcols = [(''Or'', [Num 100, Num 150, Num 80]), (''Argent'', [Num 0, Num 3])]\<rparr> =
     Inr [(''Or'', Num (-20))]"
proof -
  let ?tb = "\<lparr>tindex = [Date 2024 1 2, Date 2024 1 3, Date 2024 1 4],
       tcols = [(''Or'', [Num 100, Num 150, Num 80]), (''Argent'', [Num 0, Num 3])]\<rparr>"
  have h: "distinct (map fst (tcols ?tb))" "\<forall>c \<in> set (tcols ?tb). snd c \<noteq> []" by simp_all
  have "returns_spec ?tb = [(''Or'', Num (-20))]"
    by (simp add: returns_spec_def total_return_def fl_sub_def round_half_even_def)
  then show ?thesis using h compute_returns_spec [OF h] by simp
qed

subsection \<open>A table of one date\<close>

lemma total_return_same: "a \<noteq> 0 \<Longrightarrow> total_return (Num a) (Num a) = Num 0"
  using round_half_even_int [of 0] by (simp add: total_return_def fl_sub_def)

text \<open>
  C21: the spec's single-point case, for every table of one date: when each
  column holds one positive price, the loop reports a return of 0.0 for every
  asset, in column order (and, the price being positive, the zero is +0.0 in
  float64 too).
\<close>

theorem returns_single_date:
  assumes "distinct (map fst cols)" "\<forall>c \<in> set cols. \<exists>a. snd c = [Num a] \<and> 0 < a"
  shows "compute_returns \<lparr>tindex = [d], tcols = cols\<rparr> = Inr (map (\<lambda>c. (fst c, Num 0)) cols)"
proof -
  have ne: "\<forall>c \<in> set cols. snd c \<noteq> []" using assms(2) by auto
  have "concat (map (\<lambda>(a, vs). if fl_truthy (last vs) \<and> fl_truthy (hd vs)
            then [(a, total_return (hd vs) (last vs))] else []) cols) = map (\<lambda>c. (fst c, Num 0)) cols"
    using assms(2) by (induction cols) (auto simp: total_return_same)
  then show ?thesis using return_fold [OF assms(1) _ ne, of "[]"] by (simp add: compute_returns_def)
qed

theorem returns_single_date_witness:
  "distinct (map fst [(''Or'', [Num 100]), (''Apple (AAPL)'', [Num 188])]) \<and>
   compute_returns \<lparr>tindex = [Date 2024 1 2], tcols = [(''Or'', [Num 100]), (''Apple (AAPL)'', [Num 188])]\<rparr> =
     Inr [(''Or'', Num 0), (''Apple (AAPL)'', Num 0)]"
proof -
  have h: "distinct (map fst [(''Or'', [Num 100]), (''Apple (AAPL)'', [Num 188])])"
    "\<forall>c \<in> set [(''Or'', [Num 100]), (''Apple (AAPL)'', [Num 188])]. \<exists>a. snd c = [Num a] \<and> 0 < a"
    by simp_all
  show ?thesis using h(1) returns_single_date [OF h, of "Date 2024 1 2"] by simp
qed

subsection \<open>NaN\<close>

text \<open>
  C22: the guard \<open>if last and first\<close> does not exclude NaN, which Python treats
  as true: a column whose first value is NaN (an asset with no observation on the
  table's first date) is reported with a NaN return instead of being omitted as
  the spec requires for assets without usable endpoints.
\<close>

theorem returns_nan_first:
  "hd vs = NaN \<Longrightarrow> vs \<noteq> [] \<Longrightarrow> fl_truthy (last vs) \<Longrightarrow>
   compute_returns \<lparr>tindex = idx, tcols = [(a, vs)]\<rparr> = Inr [(a, NaN)]"
  by (cases vs) (auto simp: compute_returns_def return_step_def column_ends_def total_return_def fl_sub_def split: fl.splits)

theorem returns_nan_first_witness:
  "hd [NaN, Num 120] = NaN \<and> [NaN, Num 120] \<noteq> [] \<and> fl_truthy (last [NaN, Num 120]) \<and>
   compute_returns \<lparr>tindex = [Date 2024 1 2, Date 2024 1 3], tcols = [(''Accor'', [NaN, Num 120])]\<rparr> =
     Inr [(''Accor'', NaN)]"
  using returns_nan_first [of "[NaN, Num 120]" "[Date 2024 1 2, Date 2024 1 3]" "''Accor''"] by simp

end
