(* ===== verification/Overlay.thy ===== *)
theory Overlay
  imports Table
begin

text \<open>
  The Overlay Planner and the Chart Assembler (lines 160--240 of
  \<open>src/idl/app.py\<close>): the constant lists of historical events and recessions,
  the figure's line traces (one per table column), a grey rectangle and a label for
  each recession that meets the selected range, a dashed vertical line and a label
  for each event inside it when events are shown, and the fixed layout. The
  vertical placement is relative to \<open>df.max().max()\<close>, pandas' NaN-skipping
  maximum of the table. The plotly figure is a record of the traces, shapes and
  annotations in the order the script adds them.
\<close>

subsection \<open>Reference data (lines 161--176)\<close>

definition historical_events :: "(string \<times> date) list" where
  "historical_events =
     [(''D'' @ e_acute @ ''but 2e mandat Chirac (16/05/2002)'', Date 2002 5 16),
      (''D'' @ e_acute @ ''but mandat Sarkozy (16/05/2007)'', Date 2007 5 16),
      (''D'' @ e_acute @ ''but mandat Hollande (15/05/2012)'', Date 2012 5 15),
      (''D'' @ e_acute @ ''but mandat Macron (17/05/2017)'', Date 2017 5 17),
      (''D'' @ e_acute @ ''but 1er mandat Trump (20/01/2017)'', Date 2017 1 20),
      (''D'' @ e_acute @ ''but 2e mandat Trump (20/01/2025)'', Date 2025 1 20)]"

record recession =
  rstart :: date
  rend :: date
  rlabel :: string

definition recessions :: "recession list" where
  "recessions =
     [\<lparr>rstart = Date 2007 12 1, rend = Date 2009 6 30, rlabel = ''Grande R'' @ e_acute @ ''cession''\<rparr>,
      \<lparr>rstart = Date 2020 2 1, rend = Date 2020 6 30, rlabel = ''R'' @ e_acute @ ''cession COVID-19''\<rparr>]"

subsection \<open>The figure\<close>

datatype shape =
    Rect date date fl fl   \<comment> \<open>\<open>add_shape(type="rect", x0, x1, y0, y1)\<close>, grey, below the traces\<close>
  | VLine date             \<comment> \<open>\<open>add_vline(x)\<close>, dashed red\<close>

datatype annotation = Note date fl string bool  \<comment> \<open>\<open>add_annotation(x, y, text, showarrow)\<close>\<close>

record trace =
  tname :: string
  tx :: "date list"
  ty :: "fl list"

record layout =
  ltitle :: string
  lxaxis :: string
  lyaxis :: string
  lhovermode :: string
  lheight :: nat

record figure =
  ftraces :: "trace list"
  fshapes :: "shape list"
  fannots :: "annotation list"
  flayout :: "layout option"

text \<open>\<open>df.max().max()\<close>: the NaN-skipping maximum of the column maxima.\<close>

definition df_max :: "table \<Rightarrow> fl" where
  "df_max tb = max_skipna (map (\<lambda>(n, vs). max_skipna vs) (tcols tb))"

text \<open>Lines 180--181: one line trace per column, over the table's dates.\<close>

definition traces_of :: "table \<Rightarrow> trace list" where
  "traces_of tb = map (\<lambda>(n, vs). \<lparr>tname = n, tx = tindex tb, ty = vs\<rparr>) (tcols tb)"

text \<open>Lines 185--206: one recession, shown when it meets \<open>[start, end]\<close>, clamped to it.\<close>

definition add_recession :: "date \<Rightarrow> date \<Rightarrow> fl \<Rightarrow> recession \<Rightarrow> figure \<Rightarrow> figure" where
  "add_recession s e m r fig =
     (if s \<le> rend r \<and> e \<ge> rstart r then
        fig\<lparr>fshapes := fshapes fig @ [Rect (max (rstart r) s) (min (rend r) e) (Num 0) (fl_mul m (Num 1.1))],
            fannots := fannots fig @ [Note (max (rstart r) s) (fl_mul m (Num 1.05)) (rlabel r) False]\<rparr>
      else fig)"

text \<open>Lines 210--217: one event, shown when its date lies in \<open>[start, end]\<close>.\<close>

definition add_event :: "date \<Rightarrow> date \<Rightarrow> fl \<Rightarrow> string \<times> date \<Rightarrow> figure \<Rightarrow> figure" where
  "add_event s e m ev fig =
     (if s \<le> snd ev \<and> snd ev \<le> e then
        fig\<lparr>fshapes := fshapes fig @ [VLine (snd ev)],
            fannots := fannots fig @ [Note (snd ev) (fl_mul m (Num 0.95)) (fst ev) True]\<rparr>
      else fig)"

text \<open>Lines 220--237: the layout (title, axis titles, unified hover, height).\<close>

definition chart_layout :: layout where
  "chart_layout =
     \<lparr>ltitle = E_acute @ ''volution normalis'' @ e_acute @ ''e des actifs s'' @ e_acute @ ''lectionn'' @ e_acute @ ''s'',
      lxaxis = ''Date'', lyaxis = ''Valeur normalis'' @ e_acute @ ''e (base 100)'',
      lhovermode = ''x unified'', lheight = 1000\<rparr>"

text \<open>Lines 179--237, in the script's order.\<close>

definition build_figure :: "table \<Rightarrow> date \<Rightarrow> date \<Rightarrow> bool \<Rightarrow> figure" where
  "build_figure tb s e show_events =
     (let m = df_max tb;
          f0 = \<lparr>ftraces = traces_of tb, fshapes = [], fannots = [], flayout = None\<rparr>;
          f1 = fold (add_recession s e m) recessions f0;
          f2 = (if show_events then fold (add_event s e m) historical_events f1 else f1)
      in f2\<lparr>flayout := Some chart_layout\<rparr>)"

text \<open>A one-column table, for the closed instances below.\<close>

definition sample_table :: table where
  "sample_table = \<lparr>tindex = [Date 2008 1 2], tcols = [(''Or'', [Num 100])]\<rparr>"

subsection \<open>The planner's output\<close>

lemma fold_add_recession:
  "fold (add_recession s e m) rs f =
     f\<lparr>fshapes := fshapes f @ map (\<lambda>r. Rect (max (rstart r) s) (min (rend r) e) (Num 0) (fl_mul m (Num 1.1)))
                              (filter (\<lambda>r. s \<le> rend r \<and> rstart r \<le> e) rs),
       fannots := fannots f @ map (\<lambda>r. Note (max (rstart r) s) (fl_mul m (Num 1.05)) (rlabel r) False)
                              (filter (\<lambda>r. s \<le> rend r \<and> rstart r \<le> e) rs)\<rparr>"
  by (induction rs arbitrary: f) (auto simp: add_recession_def)

lemma fold_add_event:
  "fold (add_event s e m) evs f =
     f\<lparr>fshapes := fshapes f @ map (\<lambda>ev. VLine (snd ev)) (filter (\<lambda>ev. s \<le> snd ev \<and> snd ev \<le> e) evs),
       fannots := fannots f @ map (\<lambda>ev. Note (snd ev) (fl_mul m (Num 0.95)) (fst ev) True)
                              (filter (\<lambda>ev. s \<le> snd ev \<and> snd ev \<le> e) evs)\<rparr>"
  by (induction evs arbitrary: f) (auto simp: add_event_def)

text \<open>The whole figure, unfolded: traces, then shapes and labels in the script's order.\<close>

lemma build_figure_unfold:
  "build_figure tb s e sh =
     \<lparr>ftraces = traces_of tb,
      fshapes = map (\<lambda>r. Rect (max (rstart r) s) (min (rend r) e) (Num 0) (fl_mul (df_max tb) (Num 1.1)))
                  (filter (\<lambda>r. s \<le> rend r \<and> rstart r \<le> e) recessions) @
                (if sh then map (\<lambda>ev. VLine (snd ev)) (filter (\<lambda>ev. s \<le> snd ev \<and> snd ev \<le> e) historical_events) else []),
      fannots = map (\<lambda>r. Note (max (rstart r) s) (fl_mul (df_max tb) (Num 1.05)) (rlabel r) False)
                  (filter (\<lambda>r. s \<le> rend r \<and> rstart r \<le> e) recessions) @
                (if sh then map (\<lambda>ev. Note (snd ev) (fl_mul (df_max tb) (Num 0.95)) (fst ev) True)
                              (filter (\<lambda>ev. s \<le> snd ev \<and> snd ev \<le> e) historical_events) else []),
      flayout = Some chart_layout\<rparr>"
  by (simp add: build_figure_def fold_add_recession fold_add_event Let_def)

lemma recessions_wf: "\<forall>r \<in> set recessions. rstart r \<le> rend r"
  by (simp add: recessions_def date_le_iff)

text \<open>
  C23: the planner's rule. The figure's shapes are, in declaration order, the
  recessions that meet \<open>[start, end]\<close> (\<open>rstart \<le> end\<close> and \<open>rend \<ge> start\<close>),
  clamped to it and reaching from 0 to 1.1 times the table's maximum, then, when
  events are shown, a vertical line for each event whose date lies in the closed
  range \<open>[start, end]\<close>; no sorting by date.
\<close>

theorem build_figure_shapes:
  "fshapes (build_figure tb s e sh) =
     map (\<lambda>r. Rect (max (rstart r) s) (min (rend r) e) (Num 0) (fl_mul (df_max tb) (Num 1.1)))
       (filter (\<lambda>r. s \<le> rend r \<and> rstart r \<le> e) recessions) @
     (if sh then map (\<lambda>ev. VLine (snd ev)) (filter (\<lambda>ev. s \<le> snd ev \<and> snd ev \<le> e) historical_events) else [])"
  by (simp add: build_figure_unfold)

text \<open>
  C24: for a range with \<open>start \<le> end\<close>, every recession rectangle lies inside the
  range, runs forwards, and starts at height 0.
\<close>

theorem build_figure_rect_clamped:
  assumes "s \<le> e" "Rect x0 x1 y0 y1 \<in> set (fshapes (build_figure tb s e sh))"
  shows "s \<le> x0 \<and> x0 \<le> x1 \<and> x1 \<le> e \<and> y0 = Num 0"
  using assms recessions_wf by (auto simp: build_figure_unfold split: if_splits)

theorem build_figure_rect_clamped_witness:
  "Date 2008 1 1 \<le> Date 2008 12 31 \<and>
   Rect (Date 2008 1 1) (Date 2008 12 31) (Num 0) (fl_mul (df_max sample_table) (Num 1.1))
     \<in> set (fshapes (build_figure sample_table (Date 2008 1 1) (Date 2008 12 31) False)) \<and>
   Date 2008 1 1 \<le> Date 2008 1 1 \<and> Date 2008 1 1 \<le> Date 2008 12 31"
proof -
  have le: "Date 2008 1 1 \<le> Date 2008 12 31" by (simp add: date_le_iff)
  have mem: "Rect (Date 2008 1 1) (Date 2008 12 31) (Num 0) (fl_mul (df_max sample_table) (Num 1.1))
     \<in> set (fshapes (build_figure sample_table (Date 2008 1 1) (Date 2008 12 31) False))"
    by (simp add: build_figure_unfold recessions_def date_le_iff date_less_iff max_def min_def)
  show ?thesis using le mem build_figure_rect_clamped [OF le mem] by simp
qed

text \<open>The chart's curves are named by the table's columns, in column order.\<close>

lemma build_figure_trace_names: "map tname (ftraces (build_figure tb s e sh)) = map fst (tcols tb)"
  by (simp add: build_figure_unfold traces_of_def comp_def case_prod_unfold)

end
