(* ===== verification/Export.thy ===== *)
theory Export
  imports Table
begin

text \<open>
  The Report Builder (lines 255--264 of \<open>src/idl/app.py\<close>): \<open>df.to_csv(index=True)\<close>
  and the download's file name \<open>financial_comparison_<end_date>.csv\<close>. pandas
  writes a header line (the index name, then the column names) and one line per
  date (the date as \<open>YYYY-MM-DD\<close>, then the cells), separated by commas, each line
  ended by a newline, with minimal quoting: a field holding a comma, a double
  quote or a line break is enclosed in double quotes, its quotes doubled. A NaN
  cell is empty; infinities are \<open>inf\<close> and \<open>-inf\<close>. The text of a finite float
  (Python's \<open>repr\<close>) is a parameter \<open>fmt\<close> of the model. The index is named
  \<open>Date\<close>, the name yfinance gives it and \<open>pd.DataFrame\<close> keeps; the line
  terminator is \<open>os.linesep\<close>, a line feed on the server's platform. The theory
  ends with a reader of the text (\<open>csv_read\<close>, the \<open>csv\<close> module's default
  dialect) and the proof that it reads the export back as the table's cells.
\<close>

definition dquote :: char where "dquote = CHR 0x22"

definition needs_quote :: "string \<Rightarrow> bool" where
  "needs_quote f \<longleftrightarrow> CHR '','' \<in> set f \<or> dquote \<in> set f \<or> CHR 0x0A \<in> set f \<or> CHR 0x0D \<in> set f"

fun escape_quotes :: "string \<Rightarrow> string" where
  "escape_quotes [] = []"
| "escape_quotes (c # cs) = (if c = dquote then [c, c] else [c]) @ escape_quotes cs"

definition quote_field :: "string \<Rightarrow> string" where
  "quote_field f = (if needs_quote f then dquote # escape_quotes f @ [dquote] else f)"

fun join_fields :: "string list \<Rightarrow> string" where
  "join_fields [] = []"
| "join_fields [f] = quote_field f"
| "join_fields (f # fs) = quote_field f @ CHR '','' # join_fields fs"

definition cell :: "(real \<Rightarrow> string) \<Rightarrow> fl \<Rightarrow> string" where
  "cell fmt x = (case x of Num r \<Rightarrow> fmt r | PInf \<Rightarrow> ''inf'' | NInf \<Rightarrow> ''-inf'' | NaN \<Rightarrow> [])"

text \<open>The cells of the export, line by line, before quoting.\<close>

definition csv_cells :: "(real \<Rightarrow> string) \<Rightarrow> table \<Rightarrow> string list list" where
  "csv_cells fmt tb =
     (''Date'' # map fst (tcols tb)) #
     map (\<lambda>(i, d). date_iso d # map (\<lambda>(n, vs). cell fmt (vs ! i)) (tcols tb))
       (zip [0..<length (tindex tb)] (tindex tb))"

definition csv_lines :: "(real \<Rightarrow> string) \<Rightarrow> table \<Rightarrow> string list" where
  "csv_lines fmt tb = map join_fields (csv_cells fmt tb)"

definition to_csv :: "(real \<Rightarrow> string) \<Rightarrow> table \<Rightarrow> string" where
  "to_csv fmt tb = concat (map (\<lambda>l. l @ [CHR 0x0A]) (csv_lines fmt tb))"

text \<open>Line 262: the file name of the download.\<close>

definition csv_file_name :: "date \<Rightarrow> string" where
  "csv_file_name end_date = ''financial_comparison_'' @ date_iso end_date @ ''.csv''"

subsection \<open>Reading the export back\<close>

text \<open>
  A CSV reader's view of a whole text (the \<open>csv\<close> module's default dialect):
  records end at a line feed outside quotes, fields are separated by commas, and
  inside double quotes a doubled quote is a quote and a comma or line feed is
  data. \<open>cur\<close> is the field being read, \<open>rec\<close> the fields of the record so far.
\<close>

fun csv_scan :: "bool \<Rightarrow> string \<Rightarrow> string list \<Rightarrow> string \<Rightarrow> string list list" where
  "csv_scan q cur rec [] = (if cur = [] \<and> rec = [] then [] else [rec @ [cur]])"
| "csv_scan False cur rec (c # cs) =
     (if c = CHR '','' then csv_scan False [] (rec @ [cur]) cs
      else if c = CHR 0x0A then (rec @ [cur]) # csv_scan False [] [] cs
      else if c = dquote then csv_scan True cur rec cs
      else csv_scan False (cur @ [c]) rec cs)"
| "csv_scan True cur rec (c # cs) =
     (if c = dquote then
        (case cs of d # cs' \<Rightarrow> if d = dquote then csv_scan True (cur @ [dquote]) rec cs' else csv_scan False cur rec cs
         | [] \<Rightarrow> csv_scan False cur rec cs)
      else csv_scan True (cur @ [c]) rec cs)"

definition csv_read :: "string \<Rightarrow> string list list" where
  "csv_read txt = csv_scan False [] [] txt"

subsection \<open>The export reads back as the table\<close>

lemma dquote_ne_comma [simp]: "dquote \<noteq> CHR '',''"
  by (simp add: dquote_def)

lemma dquote_ne_lf [simp]: "dquote \<noteq> CHR 0x0A"
  by (simp add: dquote_def)

lemma csv_scan_plain:
  "CHR '','' \<notin> set f \<Longrightarrow> dquote \<notin> set f \<Longrightarrow> CHR 0x0A \<notin> set f \<Longrightarrow>
   csv_scan False cur rec (f @ rest) = csv_scan False (cur @ f) rec rest"
  by (induction f arbitrary: cur) auto

lemma csv_scan_quoted:
  "(rest = [] \<or> hd rest \<noteq> dquote) \<Longrightarrow>
   csv_scan True cur rec (escape_quotes f @ dquote # rest) = csv_scan False (cur @ f) rec rest"
proof (induction f arbitrary: cur)
  case Nil
  then show ?case by (cases rest) auto
next
  case (Cons c f)
  then show ?case by auto
qed

lemma csv_scan_field:
  assumes "rest = [] \<or> hd rest = CHR '','' \<or> hd rest = CHR 0x0A"
  shows "csv_scan False [] rec (quote_field f @ rest) = csv_scan False f rec rest"
proof (cases "needs_quote f")
  case True
  from assms have "rest = [] \<or> hd rest \<noteq> dquote" by (auto simp: dquote_def)
  with True show ?thesis by (simp add: quote_field_def csv_scan_quoted)
next
  case False
  then show ?thesis by (simp add: quote_field_def needs_quote_def csv_scan_plain)
qed

lemma csv_scan_record:
  "fs \<noteq> [] \<Longrightarrow> csv_scan False [] rec (join_fields fs @ CHR 0x0A # rest) = (rec @ fs) # csv_scan False [] [] rest"
proof (induction fs arbitrary: rec rule: join_fields.induct)
  case 1
  then show ?case by simp
next
  case (2 f)
  show ?case using csv_scan_field [of "CHR 0x0A # rest" rec f] by simp
next
  case (3 f g fs)
  have "csv_scan False [] rec (quote_field f @ CHR '','' # join_fields (g # fs) @ CHR 0x0A # rest) =
        csv_scan False f rec (CHR '','' # join_fields (g # fs) @ CHR 0x0A # rest)"
    by (rule csv_scan_field) simp
  also have "\<dots> = csv_scan False [] (rec @ [f]) (join_fields (g # fs) @ CHR 0x0A # rest)" by simp
  finally show ?case using "3.IH" [of "rec @ [f]"] by simp
qed

lemma csv_scan_records:
  "\<forall>r \<in> set rs. r \<noteq> [] \<Longrightarrow> csv_scan False [] [] (concat (map (\<lambda>r. join_fields r @ [CHR 0x0A]) rs)) = rs"
  by (induction rs) (simp_all add: csv_scan_record)

lemma csv_cells_header: "hd (csv_cells fmt tb) = ''Date'' # map fst (tcols tb)"
  by (simp add: csv_cells_def)

lemma csv_cells_dates: "map hd (tl (csv_cells fmt tb)) = map date_iso (tindex tb)"
proof -
  let ?z = "zip [0..<length (tindex tb)] (tindex tb)"
  have z: "map snd ?z = tindex tb" by simp
  have "map hd (tl (csv_cells fmt tb)) = map (\<lambda>x. date_iso (snd x)) ?z"
    by (simp add: csv_cells_def comp_def case_prod_unfold)
  also have "\<dots> = map date_iso (map snd ?z)" by (simp only: map_map comp_def)
  finally show ?thesis by (simp only: z)
qed

text \<open>
  C25: the export is the table: reading the text \<open>to_csv\<close> produces back, record
  by record and field by field, exactly the header (the index name and the column
  names in table order) and, per date, the date and the column values, whatever
  characters the names contain (commas, quotes, line breaks). In particular the
  spec's export has one record per date plus the header, each with the date column
  and one field per asset.
\<close>

theorem csv_roundtrip: "csv_read (to_csv fmt tb) = csv_cells fmt tb"
proof -
  have "\<forall>r \<in> set (csv_cells fmt tb). r \<noteq> []" by (auto simp: csv_cells_def)
  then show ?thesis
    using csv_scan_records [of "csv_cells fmt tb"] by (simp add: csv_read_def to_csv_def csv_lines_def comp_def)
qed

end
