(* ===== verification/Catalog.thy ===== *)
theory Catalog
  imports Prelude
begin

text \<open>
  The Asset Catalog and the selection (lines 75--140 of \<open>src/idl/app.py\<close>): the
  constant dictionary \<open>assets_by_category\<close> (category \<open>\<rightarrow>\<close> display name
  \<open>\<rightarrow>\<close> ticker), one Streamlit \<open>multiselect\<close> per category, and the loop that
  turns the selections into the ticker list \<open>all_selected_tickers\<close> and the
  reverse map \<open>ticker_to_name\<close>. The multiselect widget is library code; its
  contract is modelled from Streamlit's documented behaviour.
\<close>

subsection \<open>The catalog (lines 76--113)\<close>

definition metaux_precieux :: string where
  "metaux_precieux = ''M'' @ e_acute @ ''taux pr'' @ e_acute @ ''cieux''"

definition assets_by_category :: "(string, (string, string) pydict) pydict" where
  "assets_by_category =
     [(metaux_precieux,
        [(''Or'', ''GC=F''), (''Argent'', ''SI=F''), (''Cuivre'', ''HG=F'')]),
      (''Actions'',
        [(''Apple (AAPL)'', ''AAPL''), (''Tesla (TSLA)'', ''TSLA''),
         (''Microsoft (MSFT)'', ''MSFT'')]),
      (''Obligations'',
        [(''Obligations US Long Terme (TLT)'', ''TLT'')]),
      (''Devises'',
        [(''Euro (EUR/USD)'', ''EURUSD=X''), (''Livre Sterling (GBP/USD)'', ''GBPUSD=X'')]),
      (''ETF Populaires'',
        [(''Vanguard FTSE All-World (VWCE)'', ''VEUR.AS''), (''iShares MSCI World (IWDA)'', ''IWDA.AS''),
         (''Vanguard S&P 500 (VUSA)'', ''VUSA.AS''), (''iShares Core S&P 500 (CSPX)'', ''CSPX.AS'')]),
      (''Actions Fran'' @ c_cedil @ ''aises'',
        [(''Accor'', ''AC.PA''), (''Air Liquide'', ''AI.PA''), (''Schneider Electric'', ''SU.PA''),
         (''LVMH'', ''MC.PA''), (''Herm'' @ e_grave @ ''s'', ''RMS.PA''), (''L'Or'' @ e_acute @ ''al'', ''OR.PA''),
         (''Pernod Ricard'', ''RI.PA''), (''Capgemini'', ''CAP.PA''), (''Sodexo'', ''SW.PA''),
         (''TotalEnergies'', ''TTE.PA''), (''Danone'', ''BN.PA'')])]"

subsection \<open>The multiselect widgets (lines 115--131)\<close>

datatype select_error = DefaultNotInOptions

text \<open>
  \<open>st.multiselect(label, options, default)\<close>: Streamlit raises when a default is
  not among the options; otherwise it returns the options the user picked, each
  once, in the order picked, or the default when the user has not picked.
\<close>

definition multiselect :: "string list \<Rightarrow> string list \<Rightarrow> string list option \<Rightarrow> select_error + string list" where
  "multiselect options dflt pick =
     (if \<not> set dflt \<subseteq> set options then Inl DefaultNotInOptions
      else Inr (case pick of None \<Rightarrow> dflt | Some xs \<Rightarrow> remdups (filter (\<lambda>x. x \<in> set options) xs)))"

text \<open>
  One iteration of lines 117--131: the widget of a category, with \<open>["Or"]\<close> as the
  default of the precious-metals category and \<open>[]\<close> elsewhere; the hint
  "Choisir une option" when nothing is selected (both branches of lines 127--130
  show the same hint); then \<open>selected_assets[category] = selected\<close>.
\<close>

datatype sidebar_msg = ChooseOption string

definition select_category ::
  "(string \<Rightarrow> string list option) \<Rightarrow> string \<times> (string, string) pydict \<Rightarrow>
   select_error + (string, string list) pydict \<times> sidebar_msg list \<Rightarrow>
   select_error + (string, string list) pydict \<times> sidebar_msg list" where
  "select_category picks ca acc =
     (case acc of Inl e \<Rightarrow> Inl e
      | Inr (sel, hints) \<Rightarrow>
          (let (category, assets) = ca;
               dflt = (if category = metaux_precieux then [''Or''] else [])
           in case multiselect (map fst assets) dflt (picks category) of
                Inl e \<Rightarrow> Inl e
              | Inr selected \<Rightarrow>
                  Inr (dict_set category selected sel,
                       hints @ (if selected = [] then [ChooseOption category] else []))))"

definition selected_assets_of ::
  "(string \<Rightarrow> string list option) \<Rightarrow> select_error + (string, string list) pydict \<times> sidebar_msg list" where
  "selected_assets_of picks = fold (select_category picks) assets_by_category (Inr ([], []))"

subsection \<open>Merging the selections (lines 133--140)\<close>

datatype lookup_error = KeyError string

text \<open>
  For each category and each selected name: \<open>assets_by_category[category][asset]\<close>
  (a \<open>KeyError\<close> if either key is missing), appended to
  \<open>all_selected_tickers\<close> and recorded in \<open>ticker_to_name\<close>.
\<close>

definition catalog_lookup :: "string \<Rightarrow> string \<Rightarrow> lookup_error + string" where
  "catalog_lookup category asset =
     (case map_of assets_by_category category of
        None \<Rightarrow> Inl (KeyError category)
      | Some assets \<Rightarrow> (case map_of assets asset of None \<Rightarrow> Inl (KeyError asset) | Some t \<Rightarrow> Inr t))"

definition merge_asset ::
  "string \<Rightarrow> string \<Rightarrow> lookup_error + string list \<times> (string, string) pydict \<Rightarrow>
   lookup_error + string list \<times> (string, string) pydict" where
  "merge_asset category asset acc =
     (case acc of Inl e \<Rightarrow> Inl e
      | Inr (tickers, t2n) \<Rightarrow>
          (case catalog_lookup category asset of
             Inl e \<Rightarrow> Inl e
           | Inr t \<Rightarrow> Inr (tickers @ [t], dict_set t asset t2n)))"

definition merge_selections ::
  "(string, string list) pydict \<Rightarrow> lookup_error + string list \<times> (string, string) pydict" where
  "merge_selections sel =
     fold (\<lambda>(category, selections) acc. fold (merge_asset category) selections acc) sel (Inr ([], []))"

subsection \<open>What the catalog and the sidebar guarantee\<close>

text \<open>
  The catalog flattened to (category, name, ticker) triples; the shape of the
  selections the sidebar produces (one entry per category, in catalog order, each
  a list of distinct names of that category); the ticker of a selected name; and
  the (ticker, name) pairs of a selection in the order of lines 136--140.
\<close>

definition catalog_entries :: "(string \<times> string \<times> string) list" where
  "catalog_entries = concat (map (\<lambda>(c, as). map (\<lambda>(n, t). (c, n, t)) as) assets_by_category)"

definition selection_ok :: "(string, string list) pydict \<Rightarrow> bool" where
  "selection_ok sel \<longleftrightarrow>
     list_all2 (\<lambda>(c, xs) (c', as). c = c' \<and> distinct xs \<and> set xs \<subseteq> set (map fst as)) sel assets_by_category"

definition ticker_of :: "string \<Rightarrow> string \<Rightarrow> string" where
  "ticker_of c n = projr (catalog_lookup c n)"

definition selection_pairs :: "(string, string list) pydict \<Rightarrow> (string \<times> string) list" where
  "selection_pairs sel = concat (map (\<lambda>(c, xs). map (\<lambda>n. (ticker_of c n, n)) xs) sel)"

definition sel_valid :: "(string, string list) pydict \<Rightarrow> bool" where
  "sel_valid sel \<longleftrightarrow> distinct (map fst sel) \<and>
     (\<forall>(c, xs) \<in> set sel. distinct xs \<and> (\<forall>n \<in> set xs. catalog_lookup c n = Inr (ticker_of c n)))"

text \<open>A selection of gold and Apple, nothing else.\<close>

definition sample_selection :: "(string, string list) pydict" where
  "sample_selection =
     [(metaux_precieux, [''Or'']), (''Actions'', [''Apple (AAPL)'']), (''Obligations'', []),
      (''Devises'', []), (''ETF Populaires'', []), (''Actions Fran'' @ c_cedil @ ''aises'', [])]"

subsection \<open>The catalog\<close>

text \<open>
  No ticker appears twice in the catalog (the spec's "each category's identifiers
  are disjoint"), so a ticker determines its category and name.
\<close>

lemma catalog_tickers_distinct: "distinct (map (\<lambda>(c, n, t). t) catalog_entries)"
  by (simp add: catalog_entries_def assets_by_category_def utf8_letters)

lemma catalog_keys_distinct: "distinct (map fst assets_by_category)"
  by (simp add: assets_by_category_def metaux_precieux_def utf8_letters)

lemma catalog_names_distinct: "\<forall>(c, as) \<in> set assets_by_category. distinct (map fst as)"
  by (simp add: assets_by_category_def utf8_letters)

lemma catalog_entries_mem:
  assumes "(c, as) \<in> set assets_by_category" "(n, t) \<in> set as"
  shows "(c, n, t) \<in> set catalog_entries"
proof -
  have "(c, n, t) \<in> set ((\<lambda>(c, as). map (\<lambda>(n, t). (c, n, t)) as) (c, as))"
    using assms(2) by force
  with assms(1) show ?thesis unfolding catalog_entries_def set_concat set_map by blast
qed

lemma catalog_lookup_entries:
  "catalog_lookup c n = Inr t \<longleftrightarrow> (c, n, t) \<in> set catalog_entries"
proof
  assume "catalog_lookup c n = Inr t"
  then obtain as where "map_of assets_by_category c = Some as" "map_of as n = Some t"
    by (auto simp: catalog_lookup_def split: option.splits)
  then show "(c, n, t) \<in> set catalog_entries"
    by (force simp: catalog_entries_def dest!: map_of_SomeD)
next
  assume "(c, n, t) \<in> set catalog_entries"
  then obtain as where m: "(c, as) \<in> set assets_by_category" "(n, t) \<in> set as"
    by (auto simp: catalog_entries_def)
  have "map_of assets_by_category c = Some as"
    using m(1) catalog_keys_distinct by (rule map_of_is_SomeI [rotated])
  moreover have "map_of as n = Some t"
    using m catalog_names_distinct by (auto intro: map_of_is_SomeI)
  ultimately show "catalog_lookup c n = Inr t" by (simp add: catalog_lookup_def)
qed

lemma catalog_lookup_inj:
  assumes "catalog_lookup c n = Inr t" "catalog_lookup c' n' = Inr t"
  shows "c = c' \<and> n = n'"
proof -
  have "(c, n, t) \<in> set catalog_entries" "(c', n', t) \<in> set catalog_entries"
    using assms by (simp_all add: catalog_lookup_entries)
  moreover have "inj_on (\<lambda>(c, n, t). t) (set catalog_entries)"
    using catalog_tickers_distinct by (simp add: distinct_map)
  ultimately have "(c, n, t) = (c', n', t)"
    by (rule inj_onD [rotated 1, rotated 1]) simp
  then show ?thesis by simp
qed

subsection \<open>The sidebar's selections\<close>

lemma multiselect_ok:
  "set dflt \<subseteq> set options \<Longrightarrow> multiselect options dflt pick = Inr r \<Longrightarrow> distinct dflt \<Longrightarrow>
   distinct r \<and> set r \<subseteq> set options"
  by (auto simp: multiselect_def split: option.splits if_splits)

lemma select_fold:
  "distinct (map fst cat) \<Longrightarrow> set (map fst cat) \<inter> set (map fst sel0) = {} \<Longrightarrow>
   (\<forall>(c, as) \<in> set cat. c = metaux_precieux \<longrightarrow> ''Or'' \<in> set (map fst as)) \<Longrightarrow>
   \<exists>sel hints. fold (select_category picks) cat (Inr (sel0, h0)) = Inr (sel0 @ sel, hints) \<and>
     list_all2 (\<lambda>(c, xs) (c', as). c = c' \<and> distinct xs \<and> set xs \<subseteq> set (map fst as)) sel cat"
proof (induction cat arbitrary: sel0 h0)
  case Nil
  then show ?case by simp
next
  case (Cons ca cat)
  obtain c as where ca: "ca = (c, as)" by (cases ca)
  define dflt where "dflt = (if c = metaux_precieux then [''Or''] else ([] :: string list))"
  have dsub: "set dflt \<subseteq> set (map fst as)" "distinct dflt"
    using Cons.prems(3) ca by (auto simp: dflt_def)
  then obtain selected where ms: "multiselect (map fst as) dflt (picks c) = Inr selected"
    by (simp add: multiselect_def)
  have sok: "distinct selected \<and> set selected \<subseteq> set (map fst as)"
    using multiselect_ok [OF dsub(1) ms dsub(2)] .
  have new: "c \<notin> set (map fst sel0)" using Cons.prems(2) ca by auto
  then have upd: "dict_set c selected sel0 = sel0 @ [(c, selected)]" by (induction sel0) auto
  define h1 where "h1 = h0 @ (if selected = [] then [ChooseOption c] else [])"
  have step: "select_category picks ca (Inr (sel0, h0)) = Inr (sel0 @ [(c, selected)], h1)"
    using ms upd by (simp add: select_category_def ca dflt_def h1_def Let_def)
  have "distinct (map fst cat)" "set (map fst cat) \<inter> set (map fst (sel0 @ [(c, selected)])) = {}"
    "\<forall>(c, as) \<in> set cat. c = metaux_precieux \<longrightarrow> ''Or'' \<in> set (map fst as)"
    using Cons.prems ca by auto
  from Cons.IH [OF this] obtain sel hints where
    ih: "fold (select_category picks) cat (Inr (sel0 @ [(c, selected)], h1)) = Inr (sel0 @ [(c, selected)] @ sel, hints)"
        "list_all2 (\<lambda>(c, xs) (c', as). c = c' \<and> distinct xs \<and> set xs \<subseteq> set (map fst as)) sel cat"
    by fastforce
  show ?case
    using step ih sok ca by (intro exI [of _ "(c, selected) # sel"] exI [of _ hints]) simp
qed

text \<open>
  C12: the sidebar never raises (each default is one of its widget's options), and
  what it produces has one entry per category, in catalog order, each a list of
  distinct names of that category.
\<close>

theorem selected_assets_ok: "\<exists>sel hints. selected_assets_of picks = Inr (sel, hints) \<and> selection_ok sel"
proof -
  have "distinct (map fst assets_by_category)" by (rule catalog_keys_distinct)
  moreover have "\<forall>(c, as) \<in> set assets_by_category. c = metaux_precieux \<longrightarrow> ''Or'' \<in> set (map fst as)"
    by (simp add: assets_by_category_def metaux_precieux_def utf8_letters)
  ultimately show ?thesis
    using select_fold [of assets_by_category "[]" picks "[]"]
    by (simp add: selected_assets_of_def selection_ok_def)
qed

subsection \<open>Merging the selections\<close>

lemma merge_inner:
  "\<forall>n \<in> set xs. \<not> isl (catalog_lookup c n) \<Longrightarrow>
   fold (merge_asset c) xs (Inr (ts, m)) =
     Inr (ts @ map (ticker_of c) xs, fold (\<lambda>n d. dict_set (ticker_of c n) n d) xs m)"
proof (induction xs arbitrary: ts m)
  case Nil
  then show ?case by simp
next
  case (Cons a xs)
  then have "catalog_lookup c a = Inr (ticker_of c a)"
    by (cases "catalog_lookup c a") (simp_all add: ticker_of_def)
  with Cons show ?case by (simp add: merge_asset_def)
qed

lemma merge_outer:
  "\<forall>(c, xs) \<in> set sel. \<forall>n \<in> set xs. \<not> isl (catalog_lookup c n) \<Longrightarrow>
   fold (\<lambda>(c, xs) acc. fold (merge_asset c) xs acc) sel (Inr (ts, m)) =
     Inr (ts @ map fst (selection_pairs sel), fold (\<lambda>(t, n) d. dict_set t n d) (selection_pairs sel) m)"
proof (induction sel arbitrary: ts m)
  case Nil
  then show ?case by (simp add: selection_pairs_def)
next
  case (Cons p sel)
  obtain c xs where p: "p = (c, xs)" by (cases p)
  with Cons.prems have "\<forall>n \<in> set xs. \<not> isl (catalog_lookup c n)" by simp
  with Cons p show ?case
    by (simp add: merge_inner selection_pairs_def fold_map comp_def)
qed

lemma selection_ok_lookup:
  assumes ok: "selection_ok sel" and mem: "(c, xs) \<in> set sel" "n \<in> set xs"
  shows "catalog_lookup c n = Inr (ticker_of c n)"
proof -
  have "\<exists>y \<in> set assets_by_category. (\<lambda>(c, xs) (c', as). c = c' \<and> distinct xs \<and> set xs \<subseteq> set (map fst as)) (c, xs) y"
    using list_all2_mem1 [OF ok [unfolded selection_ok_def] mem(1)] .
  then obtain as where y: "(c, as) \<in> set assets_by_category" "set xs \<subseteq> set (map fst as)"
    by auto
  with mem(2) obtain t where "(n, t) \<in> set as" by auto
  with y(1) have "(c, n, t) \<in> set catalog_entries" by (rule catalog_entries_mem)
  then have "catalog_lookup c n = Inr t" by (simp add: catalog_lookup_entries)
  then show ?thesis by (simp add: ticker_of_def)
qed

lemma selection_ok_keys: "selection_ok sel \<Longrightarrow> map fst sel = map fst assets_by_category"
  unfolding selection_ok_def by (rule list_all2_keys)

lemma selection_ok_valid: "selection_ok sel \<Longrightarrow> sel_valid sel"
proof -
  assume ok: "selection_ok sel"
  have "distinct (map fst sel)" using selection_ok_keys [OF ok] catalog_keys_distinct by simp
  moreover have "\<forall>(c, xs) \<in> set sel. distinct xs"
    using ok unfolding selection_ok_def by (fastforce dest: list_all2_mem1)
  moreover have "\<forall>(c, xs) \<in> set sel. \<forall>n \<in> set xs. catalog_lookup c n = Inr (ticker_of c n)"
    using selection_ok_lookup [OF ok] by blast
  ultimately show ?thesis by (auto simp: sel_valid_def)
qed

lemma selection_pairs_distinct: "sel_valid sel \<Longrightarrow> distinct (map fst (selection_pairs sel))"
proof (induction sel)
  case Nil
  then show ?case by (simp add: selection_pairs_def)
next
  case (Cons p sel)
  obtain c xs where p: "p = (c, xs)" by (cases p)
  have v: "sel_valid sel" using Cons.prems by (simp add: sel_valid_def)
  have lk: "\<And>n. n \<in> set xs \<Longrightarrow> catalog_lookup c n = Inr (ticker_of c n)"
    using Cons.prems p by (auto simp: sel_valid_def)
  have "distinct (map (ticker_of c) xs)"
  proof -
    have "inj_on (ticker_of c) (set xs)"
      by (rule inj_onI) (use lk catalog_lookup_inj in metis)
    then show ?thesis using Cons.prems p by (simp add: distinct_map sel_valid_def)
  qed
  moreover have "ticker_of c n \<noteq> t" if n: "n \<in> set xs" and t: "t \<in> set (map fst (selection_pairs sel))" for n t
  proof
    assume eq: "ticker_of c n = t"
    from t obtain c' xs' n' where m: "(c', xs') \<in> set sel" "n' \<in> set xs'" "t = ticker_of c' n'"
      by (auto simp: selection_pairs_def)
    have "catalog_lookup c' n' = Inr (ticker_of c' n')" using Cons.prems m by (auto simp: sel_valid_def)
    with lk [OF n] eq m(3) have "c = c'" using catalog_lookup_inj by metis
    with m(1) Cons.prems p show False by (force simp: sel_valid_def)
  qed
  ultimately have "distinct (map (ticker_of c) xs)"
    "set (map (ticker_of c) xs) \<inter> set (map fst (selection_pairs sel)) = {}"
    by auto
  moreover have "map fst (selection_pairs (p # sel)) = map (ticker_of c) xs @ map fst (selection_pairs sel)"
    using p by (simp add: selection_pairs_def comp_def)
  ultimately show ?case using Cons.IH [OF v] by simp
qed

lemma merge_selections_valid:
  assumes v: "sel_valid sel"
  shows "merge_selections sel = Inr (map fst (selection_pairs sel), selection_pairs sel)"
proof -
  have "\<forall>(c, xs) \<in> set sel. \<forall>n \<in> set xs. \<not> isl (catalog_lookup c n)"
    using v by (fastforce simp: sel_valid_def)
  then have "merge_selections sel =
      Inr (map fst (selection_pairs sel), fold (\<lambda>(t, n) d. dict_set t n d) (selection_pairs sel) [])"
    by (simp add: merge_selections_def merge_outer)
  also have "fold (\<lambda>(t, n) d. dict_set t n d) (selection_pairs sel) [] = selection_pairs sel"
    using dict_fold_pairs_distinct [OF selection_pairs_distinct [OF v], of "[]"] by simp
  finally show ?thesis .
qed

lemma selected_assets_of_ok:
  assumes "selected_assets_of picks = Inr (sel, hints)"
  shows "selection_ok sel"
proof -
  have "\<forall>(c, as) \<in> set assets_by_category. c = metaux_precieux \<longrightarrow> ''Or'' \<in> set (map fst as)"
    by (simp add: assets_by_category_def metaux_precieux_def utf8_letters)
  then obtain sel' hints' where "selected_assets_of picks = Inr (sel', hints')"
      and "list_all2 (\<lambda>(c, xs) (c', as). c = c' \<and> distinct xs \<and> set xs \<subseteq> set (map fst as)) sel' assets_by_category"
    using select_fold [OF catalog_keys_distinct, of "[]" picks "[]"] by (auto simp: selected_assets_of_def)
  with assms show ?thesis by (simp add: selection_ok_def)
qed

text \<open>
  C13: on any selection the sidebar can produce, the merge raises no
  \<open>KeyError\<close>: it returns the tickers of the selected names, category by
  category in catalog order and name by name in selection order, and
  \<open>ticker_to_name\<close> holds exactly the (ticker, name) pairs, in that order.
\<close>

theorem merge_selections_ok:
  assumes "selection_ok sel"
  shows "merge_selections sel = Inr (map fst (selection_pairs sel), selection_pairs sel)"
  using merge_selections_valid [OF selection_ok_valid [OF assms]] .

theorem merge_selections_ok_witness:
  "selection_ok sample_selection \<and>
   merge_selections sample_selection = Inr ([''GC=F'', ''AAPL''], [(''GC=F'', ''Or''), (''AAPL'', ''Apple (AAPL)'')])"
proof -
  have ok: "selection_ok sample_selection"
    by (simp add: selection_ok_def sample_selection_def assets_by_category_def)
  have p: "selection_pairs sample_selection = [(''GC=F'', ''Or''), (''AAPL'', ''Apple (AAPL)'')]"
    by (simp add: selection_pairs_def sample_selection_def ticker_of_def catalog_lookup_def
        assets_by_category_def metaux_precieux_def utf8_letters)
  show ?thesis using ok merge_selections_ok [OF ok] p by simp
qed

text \<open>
  C14: the same ticker is never fetched twice: the merged ticker list of any
  sidebar selection has no repetition.
\<close>

theorem merge_selections_distinct:
  "selection_ok sel \<Longrightarrow> merge_selections sel = Inr (ts, m) \<Longrightarrow> distinct ts"
  using merge_selections_ok selection_pairs_distinct selection_ok_valid by fastforce

theorem merge_selections_distinct_witness:
  "selection_ok sample_selection \<and>
   merge_selections sample_selection = Inr ([''GC=F'', ''AAPL''], [(''GC=F'', ''Or''), (''AAPL'', ''Apple (AAPL)'')]) \<and>
   distinct [''GC=F'', ''AAPL'']"
proof -
  have ok: "selection_ok sample_selection"
    by (simp add: selection_ok_def sample_selection_def assets_by_category_def)
  have m: "merge_selections sample_selection = Inr ([''GC=F'', ''AAPL''], [(''GC=F'', ''Or''), (''AAPL'', ''Apple (AAPL)'')])"
    by (simp add: merge_selections_def sample_selection_def merge_asset_def catalog_lookup_def
        assets_by_category_def metaux_precieux_def utf8_letters)
  show ?thesis using ok m merge_selections_distinct [OF ok m] by simp
qed

text \<open>
  C15: \<open>ticker_to_name\<close> inverts the catalog on the selection: the ticker of every
  selected name maps back to that name, which is what line 158 relies on to
  label the table's columns.
\<close>

theorem ticker_to_name_roundtrip:
  assumes ok: "selection_ok sel" and res: "merge_selections sel = Inr (ts, m)"
    and mem: "(c, xs) \<in> set sel" "n \<in> set xs"
  shows "map_of m (ticker_of c n) = Some n"
proof -
  have v: "sel_valid sel" using ok by (rule selection_ok_valid)
  have m: "m = selection_pairs sel" using merge_selections_ok [OF ok] res by simp
  have "(ticker_of c n, n) \<in> set (selection_pairs sel)"
    using mem by (force simp: selection_pairs_def)
  with selection_pairs_distinct [OF v] m show ?thesis by (simp add: map_of_is_SomeI)
qed

theorem ticker_to_name_roundtrip_witness:
  "selection_ok sample_selection \<and>
   merge_selections sample_selection = Inr ([''GC=F'', ''AAPL''], [(''GC=F'', ''Or''), (''AAPL'', ''Apple (AAPL)'')]) \<and>
   (''Actions'', [''Apple (AAPL)'']) \<in> set sample_selection \<and> ''Apple (AAPL)'' \<in> set [''Apple (AAPL)''] \<and>
   map_of [(''GC=F'', ''Or''), (''AAPL'', ''Apple (AAPL)'')] (ticker_of ''Actions'' ''Apple (AAPL)'') = Some ''Apple (AAPL)''"
proof -
  have ok: "selection_ok sample_selection"
    by (simp add: selection_ok_def sample_selection_def assets_by_category_def)
  have m: "merge_selections sample_selection = Inr ([''GC=F'', ''AAPL''], [(''GC=F'', ''Or''), (''AAPL'', ''Apple (AAPL)'')])"
    by (simp add: merge_selections_def sample_selection_def merge_asset_def catalog_lookup_def
        assets_by_category_def metaux_precieux_def utf8_letters)
  have mem: "(''Actions'', [''Apple (AAPL)'']) \<in> set sample_selection" "''Apple (AAPL)'' \<in> set [''Apple (AAPL)'']"
    by (simp_all add: sample_selection_def)
  show ?thesis using ok m mem ticker_to_name_roundtrip [OF ok m mem] by simp
qed

end
