(* ===== verification/Spec2Isabelle.thy ===== *)
theory Spec2Isabelle
  imports Returns Overlay Export Catalog
begin

text \<open>
  \<^bold>\<open>A verification model of the financial-comparison dashboard\<close>
  (\<open>src/idl/app.py\<close>, a Streamlit script of 270 lines).

  \<^bold>\<open>The program.\<close> On every interaction Streamlit reruns the script top to
  bottom. The script reads a date range from two sidebar date widgets (lines
  69--73), one multiselect per category of a constant asset catalog (lines
  75--131), merges the selections into a ticker list and a ticker-to-name map
  (lines 133--140), downloads and normalizes each ticker's closing prices with
  \<open>get_normalized_data\<close> (lines 9--26, called from the loop of lines 142--150),
  and, if anything loaded, builds a pandas table of the normalized series (lines
  156--158), a plotly chart with recession bands and historical-event lines (lines
  160--240), a list of total returns (lines 242--253) and a CSV download (lines
  255--264). Components interact only through the values the script passes on:
  there is no shared mutable state besides the dictionaries the loops fill.

  \<^bold>\<open>The theories.\<close>
  \<^item> \<open>Prelude\<close>: Python dictionaries as insertion-ordered association lists
    (\<open>AList.update\<close> is \<open>d[k] = v\<close>), the lemmas on loops that fill them, UTF-8
    byte pairs for the accented letters of the source's strings.
  \<^item> \<open>Floats\<close>: numpy \<open>float64\<close> values as finite reals, two infinities and NaN,
    with the IEEE rules for \<open>/\<close>, \<open>*\<close>, \<open>-\<close>, Python truth values, numpy's
    \<open>round(x, 2)\<close> (ties to even) and pandas' NaN-skipping maximum.
  \<^item> \<open>Dates\<close>: calendar dates with their order (a \<open>linorder\<close> instance), the
    \<open>YYYY-MM-DD\<close> text given to the data source, and \<open>sidebar_dates\<close> (lines
    70--73) over Streamlit's \<open>date_input\<close> contract.
  \<^item> \<open>Fetch\<close>: the data source as a parameter returning a pandas frame or an
    exception, \<open>get_normalized_data\<close> branch by branch (empty frame, the
    \<open>('Close', ticker)\<close> column, \<open>raw['Close']\<close> and its \<open>KeyError\<close>, the
    second emptiness check, the normalization), and the loading loop \<open>load_all\<close>
    with the messages it shows, in order.
  \<^item> \<open>Catalog\<close>: \<open>assets_by_category\<close>, the multiselects
    (\<open>selected_assets_of\<close>) and the merge (\<open>merge_selections\<close>).
  \<^item> \<open>Table\<close>: \<open>pd.DataFrame(data)\<close> (\<open>frame_of_dict\<close>: union of the date
    indexes, NaN where a series lacks a date) and the column renaming.
  \<^item> \<open>Returns\<close>: the return loop and its messages.
  \<^item> \<open>Overlay\<close>: the recession and event reference data, \<open>build_figure\<close>
    (traces, rectangles, lines, labels, layout).
  \<^item> \<open>Export\<close>: \<open>to_csv\<close> with pandas' minimal quoting, and the file name.
  \<^item> this theory: the whole script as \<open>run_app\<close>, and the properties of the
    composition.

  \<^bold>\<open>What is proved.\<close> Per component:
  \<^item> \<open>Fetch\<close>: the normalized series starts at 100 (C1) and is unchanged by a
    scaling of the prices by a power of two that float64 performs exactly (C2);
    \<open>get_normalized_data\<close> on each branch: the main path (C5), a frame without a
    close column (C6), the unreachable second warning (C7), a zero first price
    (C8); the loading loop refines the spec's filter (C3) and shows its messages
    in order (C4).
  \<^item> \<open>Dates\<close>: the sidebar's range contract (C10) and the round trip of the
    \<open>YYYY-MM-DD\<close> text (C11).
  \<^item> \<open>Catalog\<close>: the sidebar never raises and yields valid selections (C12); the
    merge raises no \<open>KeyError\<close>, keeps selection order (C13) and fetches no ticker
    twice (C14); \<open>ticker_to_name\<close> inverts the catalog on the selection (C15).
  \<^item> \<open>Table\<close>: the table's index and each ticker's column, value by value (C16),
    no observation lost (C17), NaN where a series has no value (C18), and the
    table of series on one calendar (C19).
  \<^item> \<open>Returns\<close>: the loop refines the spec's filter (C20), a one-date table
    gives 0.0 everywhere (C21), a NaN first cell gives a NaN return (C22).
  \<^item> \<open>Overlay\<close>: the closed form of the shapes (C23) and the clamping of the
    recession rectangles (C24).
  \<^item> \<open>Export\<close>: the text of \<open>to_csv\<close> reads back as the table (C25).
  Across components, on \<open>run_app\<close>: after 2025 the script always fails in the
  sidebar (C9); clearing every selection downloads nothing and ends in the "no
  valid data" message (C26); that message appears exactly when no chart is drawn,
  and the export exactly when one is (C27); every curve carries the name of a
  selected asset (C28); every asset with a listed return is a curve of the chart
  (C29); the export's header and dates are the chart's curve names and dates
  (C30); no run raises \<open>IndexError\<close> in the return loop (C31). A run in which
  gold loads and Apple's download is empty (\<open>gold_apple_run\<close>) is evaluated end
  to end and witnesses C27 to C30.

  \<^bold>\<open>Findings.\<close> The end-date widget's default exceeds its maximum from
  2026-01-01 on, so the page no longer renders (C9); a frame without a close
  column is reported as a fetch error, not as "no data" (C6); the second "no
  closing data" warning is dead code (C7); a zero first price is not guarded: the
  ticker is kept with a series of NaN and infinities instead of starting at 100
  (C8); the return guard lets NaN through, so an asset whose first table cell is
  NaN is listed with a \<open>nan\<close> return (C22).

  \<^bold>\<open>Not modelled.\<close> Page styling, titles and the logo (lines 28--67,
  266--270); the rendering of the chart and of the download button; the float
  text \<open>repr\<close> (a parameter of \<open>to_csv\<close>); rounding of finite results to 53
  bits, overflow and the sign of zero (see \<open>Floats\<close>: the properties are stated so
  that they do not depend on them); pandas' behaviour on a dictionary entry that is a
  frame (the sub-frame branch of \<open>raw['Close']\<close>), which the model reports as
  an error value. No loop of the script can fail to terminate (all iterate over
  finite lists), so no fuel is needed anywhere.
\<close>

section \<open>The whole script\<close>

record app_input =
  in_today :: date
  in_pick_start :: "date option"
  in_pick_end :: "date option"
  in_picks :: "string \<Rightarrow> string list option"
  in_show_events :: bool
  in_source :: source

datatype app_error =
    DateWidget widget_error
  | SelectWidget select_error
  | CatalogKey lookup_error
  | TableBuild table_error
  | ReturnIndex py_error

record app_output =
  out_hints :: "sidebar_msg list"
  out_log :: "msg list"
  out_figure :: "figure option"
  out_report :: "report_msg list"
  out_csv :: "string option"
  out_file_name :: "string option"

text \<open>Lines 152--264, once the data are loaded.\<close>

definition render :: "(real \<Rightarrow> string) \<Rightarrow> app_input \<Rightarrow> date \<Rightarrow> date \<Rightarrow> (string, string) pydict \<Rightarrow>
    sidebar_msg list \<Rightarrow> load_state \<Rightarrow> app_error + app_output" where
  "render fmt inp s e t2n hints st =
     (if data st = [] then
        Inr \<lparr>out_hints = hints, out_log = log st @ [ErrNoValidData], out_figure = None,
             out_report = [], out_csv = None, out_file_name = None\<rparr>
      else
        (case build_df (data st) t2n of
           Inl err \<Rightarrow> Inl (TableBuild err)
         | Inr tb \<Rightarrow>
             (case compute_returns tb of
                Inl err \<Rightarrow> Inl (ReturnIndex err)
              | Inr rets \<Rightarrow>
                  Inr \<lparr>out_hints = hints, out_log = log st,
                       out_figure = Some (build_figure tb s e (in_show_events inp)),
                       out_report = report_returns rets, out_csv = Some (to_csv fmt tb),
                       out_file_name = Some (csv_file_name e)\<rparr>)))"

text \<open>Lines 69--264: dates, selections, merge, loading, then the rendering.\<close>

definition run_app :: "(real \<Rightarrow> string) \<Rightarrow> app_input \<Rightarrow> app_error + app_output" where
  "run_app fmt inp =
     (case sidebar_dates (in_today inp) (in_pick_start inp) (in_pick_end inp) of
        Inl err \<Rightarrow> Inl (DateWidget err)
      | Inr (s, e) \<Rightarrow>
          (case selected_assets_of (in_picks inp) of
             Inl err \<Rightarrow> Inl (SelectWidget err)
           | Inr (sel, hints) \<Rightarrow>
               (case merge_selections sel of
                  Inl err \<Rightarrow> Inl (CatalogKey err)
                | Inr (tickers, t2n) \<Rightarrow>
                    render fmt inp s e t2n hints
                      (load_all (in_source inp) (date_iso s) (date_iso e) tickers))))"

text \<open>Sample inputs: the script run on a given day with the sample data source.\<close>

definition sample_input :: "date \<Rightarrow> (string \<Rightarrow> string list option) \<Rightarrow> app_input" where
  "sample_input today picks =
     \<lparr>in_today = today, in_pick_start = None, in_pick_end = None, in_picks = picks,
      in_show_events = True, in_source = sample_source\<rparr>"

text \<open>Gold by default, Apple picked in the US equities, nothing else.\<close>

definition gold_apple_picks :: "string \<Rightarrow> string list option" where
  "gold_apple_picks c = (if c = ''Actions'' then Some [''Apple (AAPL)''] else None)"

text \<open>The table the gold-and-Apple run builds: Apple's download is empty.\<close>

definition gold_table :: table where
  "gold_table = \<lparr>tindex = [Date 2024 1 2, Date 2024 1 3], tcols = [(''Or'', [Num 100, Num 102.5])]\<rparr>"

section \<open>Properties of the composition\<close>

lemma run_app_figure:
  assumes "run_app fmt inp = Inr out" "out_figure out = Some fig"
  obtains s e sel hints ts t2n tb rets where
    "sidebar_dates (in_today inp) (in_pick_start inp) (in_pick_end inp) = Inr (s, e)"
    "selected_assets_of (in_picks inp) = Inr (sel, hints)" "merge_selections sel = Inr (ts, t2n)"
    "build_df (data (load_all (in_source inp) (date_iso s) (date_iso e) ts)) t2n = Inr tb"
    "fig = build_figure tb s e (in_show_events inp)"
    "compute_returns tb = Inr rets" "out_report out = report_returns rets" "out_csv out = Some (to_csv fmt tb)"
  using assms by (auto simp: run_app_def render_def split: sum.splits if_splits)

lemma render_outputs:
  assumes "render fmt inp s e t2n hints st = Inr out" "ErrNoValidData \<notin> set (log st)"
  shows "(out_figure out = None \<longleftrightarrow> ErrNoValidData \<in> set (out_log out)) \<and>
         (out_figure out = None \<longleftrightarrow> out_csv out = None)"
  using assms by (auto simp: render_def split: sum.splits if_splits)

lemma selected_assets_cleared:
  "selected_assets_of (\<lambda>_. Some []) =
     Inr (map (\<lambda>(c, _). (c, [])) assets_by_category, map (\<lambda>(c, _). ChooseOption c) assets_by_category)"
  unfolding selected_assets_of_def assets_by_category_def select_category_def multiselect_def metaux_precieux_def
  by code_simp

lemma merge_selections_cleared: "merge_selections (map (\<lambda>(c, _). (c, [])) assets_by_category) = Inr ([], [])"
  unfolding merge_selections_def by (simp add: fold_map comp_def case_prod_unfold fold_id)

lemma sample_sidebar: "sidebar_dates (Date 2025 6 30) None None = Inr (Date 2010 1 1, Date 2025 6 30)"
  by (simp add: sidebar_dates_def date_input_def date_less_iff)

text \<open>
  C9: from 1 January 2026 on, the script never gets past the sidebar: whatever
  the user picks, the end-date widget raises (its default \<open>datetime.now()\<close> lies
  above its fixed maximum 2025-12-31), so no chart, table or export is shown.
\<close>

theorem app_fails_after_2025:
  assumes "Date 2025 12 31 < in_today inp"
  shows "\<exists>err. run_app fmt inp = Inl (DateWidget err)"
proof -
  obtain err where "sidebar_dates (in_today inp) (in_pick_start inp) (in_pick_end inp) = Inl err"
    using sidebar_dates_after_2025 [OF assms, of "in_pick_start inp" "in_pick_end inp"]
    by (cases "sidebar_dates (in_today inp) (in_pick_start inp) (in_pick_end inp)") auto
  then show ?thesis by (simp add: run_app_def)
qed

theorem app_fails_after_2025_witness:
  "Date 2025 12 31 < in_today (sample_input (Date 2026 11 9) gold_apple_picks) \<and>
   (\<exists>err. run_app (\<lambda>_. []) (sample_input (Date 2026 11 9) gold_apple_picks) = Inl (DateWidget err))"
proof -
  have h: "Date 2025 12 31 < in_today (sample_input (Date 2026 11 9) gold_apple_picks)"
    by (simp add: sample_input_def date_less_iff)
  show ?thesis by (rule conjI [OF h app_fails_after_2025 [OF h]])
qed

text \<open>
  C26: when the user clears every multiselect (dates valid), nothing is
  downloaded; the sidebar shows "Choisir une option" for each category, in
  catalog order, and the page only the "no valid data" error: no chart, no
  returns, no export.
\<close>

theorem app_empty_selection:
  assumes "sidebar_dates (in_today inp) (in_pick_start inp) (in_pick_end inp) = Inr (s, e)"
    and "in_picks inp = (\<lambda>_. Some [])"
  shows "run_app fmt inp =
     Inr \<lparr>out_hints = map (\<lambda>(c, _). ChooseOption c) assets_by_category, out_log = [ErrNoValidData],
          out_figure = None, out_report = [], out_csv = None, out_file_name = None\<rparr>"
  using assms by (simp add: run_app_def render_def selected_assets_cleared merge_selections_cleared load_all_def)

theorem app_empty_selection_witness:
  "sidebar_dates (in_today (sample_input (Date 2025 6 30) (\<lambda>_. Some []))) None None = Inr (Date 2010 1 1, Date 2025 6 30) \<and>
   in_picks (sample_input (Date 2025 6 30) (\<lambda>_. Some [])) = (\<lambda>_. Some []) \<and>
   run_app (\<lambda>_. []) (sample_input (Date 2025 6 30) (\<lambda>_. Some [])) =
     Inr \<lparr>out_hints = map (\<lambda>(c, _). ChooseOption c) assets_by_category, out_log = [ErrNoValidData],
          out_figure = None, out_report = [], out_csv = None, out_file_name = None\<rparr>"
proof -
  let ?inp = "sample_input (Date 2025 6 30) (\<lambda>_. Some [])"
  have d: "sidebar_dates (in_today ?inp) (in_pick_start ?inp) (in_pick_end ?inp) = Inr (Date 2010 1 1, Date 2025 6 30)"
    by (simp add: sample_input_def sample_sidebar)
  have p: "in_picks ?inp = (\<lambda>_. Some [])" by (simp add: sample_input_def)
  show ?thesis using d p app_empty_selection [OF d p, of "\<lambda>_. []"] by (simp add: sample_input_def)
qed

text \<open>
  C27: the page is consistent: it shows the "no valid data" error exactly when it
  draws no chart, and offers the CSV export exactly when it draws one.
\<close>

theorem app_no_data_iff_no_figure:
  assumes "run_app fmt inp = Inr out"
  shows "(out_figure out = None \<longleftrightarrow> ErrNoValidData \<in> set (out_log out)) \<and>
         (out_figure out = None \<longleftrightarrow> out_csv out = None)"
proof -
  obtain s e sel hints ts t2n where
    "render fmt inp s e t2n hints (load_all (in_source inp) (date_iso s) (date_iso e) ts) = Inr out"
    using assms by (auto simp: run_app_def split: sum.splits)
  then show ?thesis using render_outputs load_all_no_final_message by blast
qed

text \<open>
  C28: every curve of the chart is labelled with the name of an asset the user
  selected in the sidebar, never with a bare ticker: the loaded tickers are
  among the merged ones, and \<open>ticker_to_name\<close> maps each of them back to its
  selected name.
\<close>

theorem app_trace_names_selected:
  assumes run: "run_app fmt inp = Inr out" and fig: "out_figure out = Some f"
    and n: "n \<in> set (map tname (ftraces f))"
  shows "\<exists>sel hints c xs. selected_assets_of (in_picks inp) = Inr (sel, hints) \<and> (c, xs) \<in> set sel \<and> n \<in> set xs"
proof -
  obtain s e sel hints ts t2n tb where
    sel: "selected_assets_of (in_picks inp) = Inr (sel, hints)" and m: "merge_selections sel = Inr (ts, t2n)"
    and tb: "build_df (data (load_all (in_source inp) (date_iso s) (date_iso e) ts)) t2n = Inr tb"
    and f: "f = build_figure tb s e (in_show_events inp)"
    using run_app_figure [OF run fig] by metis
  let ?ps = "selection_pairs sel"
  have "merge_selections sel = Inr (map fst ?ps, ?ps)"
    using merge_selections_valid [OF selection_ok_valid [OF selected_assets_of_ok [OF sel]]] .
  with m have ts: "ts = map fst ?ps" and t2n: "t2n = ?ps" by auto
  have "n \<in> set (map fst (tcols tb))" using n by (simp add: f build_figure_unfold traces_of_def case_prod_unfold)
  then obtain k where k: "k \<in> set (map fst (data (load_all (in_source inp) (date_iso s) (date_iso e) ts)))"
      and nk: "n = (case map_of ?ps k of Some n \<Rightarrow> n | None \<Rightarrow> k)"
    using build_df_names [OF tb] t2n by auto
  have "k \<in> set ts" using k load_all_keys by blast
  then obtain n' where "map_of ?ps k = Some n'" using ts by (auto dest: weak_map_of_SomeI)
  with nk have "(k, n) \<in> set ?ps" by (auto dest: map_of_SomeD)
  then obtain c xs where "(c, xs) \<in> set sel" "n \<in> set xs" by (auto simp: selection_pairs_def)
  with sel show ?thesis by blast
qed

subsection \<open>A run with one asset loaded and one failing\<close>

lemma gold_apple_selection:
  "selected_assets_of gold_apple_picks = Inr (sample_selection,
     [ChooseOption ''Obligations'', ChooseOption ''Devises'', ChooseOption ''ETF Populaires'',
      ChooseOption (''Actions Fran'' @ c_cedil @ ''aises'')])"
  unfolding selected_assets_of_def assets_by_category_def select_category_def multiselect_def metaux_precieux_def
    gold_apple_picks_def sample_selection_def utf8_letters
  by code_simp

lemma gold_apple_merge:
  "merge_selections sample_selection = Inr ([''GC=F'', ''AAPL''], [(''GC=F'', ''Or''), (''AAPL'', ''Apple (AAPL)'')])"
proof -
  have "selection_ok sample_selection"
    by (simp add: selection_ok_def sample_selection_def assets_by_category_def)
  moreover have "selection_pairs sample_selection = [(''GC=F'', ''Or''), (''AAPL'', ''Apple (AAPL)'')]"
    by (simp add: selection_pairs_def sample_selection_def ticker_of_def catalog_lookup_def
        assets_by_category_def metaux_precieux_def utf8_letters)
  ultimately show ?thesis using merge_selections_valid selection_ok_valid by simp
qed

lemma gold_apple_load:
  "load_all sample_source (date_iso (Date 2010 1 1)) (date_iso (Date 2025 6 30)) [''GC=F'', ''AAPL''] =
     \<lparr>data = [(''GC=F'', NormSeries [(Date 2024 1 2, Num 100), (Date 2024 1 3, Num 102.5)])],
      log = [Loading ''GC=F'', Loading ''AAPL'', WarnNoData ''AAPL'', ErrLoadFailed ''AAPL'']\<rparr>"
  by (simp add: load_all_def load_step_def get_normalized_data_def sample_source_def
      sample_frame_def frame_empty_def select_close_def close_empty_def normalize_close_def result_empty_def)

lemma gold_apple_table:
  "build_df [(''GC=F'', NormSeries [(Date 2024 1 2, Num 100), (Date 2024 1 3, Num 102.5)])]
     [(''GC=F'', ''Or''), (''AAPL'', ''Apple (AAPL)'')] = Inr gold_table"
  unfolding build_df_def frame_of_dict_def union_index_def align_def rename_columns_def gold_table_def
  by code_simp

lemma gold_apple_returns: "compute_returns gold_table = Inr [(''Or'', Num 2.5)]"
  by (simp add: gold_table_def compute_returns_def return_step_def column_ends_def total_return_def
      fl_sub_def round_half_even_def)

lemma gold_apple_run:
  "run_app fmt (sample_input (Date 2025 6 30) gold_apple_picks) =
     Inr \<lparr>out_hints = [ChooseOption ''Obligations'', ChooseOption ''Devises'', ChooseOption ''ETF Populaires'',
                      ChooseOption (''Actions Fran'' @ c_cedil @ ''aises'')],
          out_log = [Loading ''GC=F'', Loading ''AAPL'', WarnNoData ''AAPL'', ErrLoadFailed ''AAPL''],
          out_figure = Some (build_figure gold_table (Date 2010 1 1) (Date 2025 6 30) True),
          out_report = [ReturnsHeader, ReturnLine ''Or'' (Num 2.5)],
          out_csv = Some (to_csv fmt gold_table),
          out_file_name = Some (csv_file_name (Date 2025 6 30))\<rparr>"
proof -
  let ?hints = "[ChooseOption ''Obligations'', ChooseOption ''Devises'', ChooseOption ''ETF Populaires'',
                ChooseOption (''Actions Fran'' @ c_cedil @ ''aises'')]"
  have "run_app fmt (sample_input (Date 2025 6 30) gold_apple_picks) =
      render fmt (sample_input (Date 2025 6 30) gold_apple_picks) (Date 2010 1 1) (Date 2025 6 30)
        [(''GC=F'', ''Or''), (''AAPL'', ''Apple (AAPL)'')] ?hints
        (load_all sample_source (date_iso (Date 2010 1 1)) (date_iso (Date 2025 6 30)) [''GC=F'', ''AAPL''])"
    unfolding run_app_def by (simp add: sample_input_def sample_sidebar gold_apple_selection gold_apple_merge)
  also have "\<dots> = Inr \<lparr>out_hints = ?hints,
          out_log = [Loading ''GC=F'', Loading ''AAPL'', WarnNoData ''AAPL'', ErrLoadFailed ''AAPL''],
          out_figure = Some (build_figure gold_table (Date 2010 1 1) (Date 2025 6 30) True),
          out_report = [ReturnsHeader, ReturnLine ''Or'' (Num 2.5)],
          out_csv = Some (to_csv fmt gold_table),
          out_file_name = Some (csv_file_name (Date 2025 6 30))\<rparr>"
    unfolding render_def gold_apple_load load_state.select_convs gold_apple_table sum.case gold_apple_returns
    by (simp add: report_returns_def sample_input_def)
  finally show ?thesis .
qed
text \<open>The run with gold loaded and Apple failing, seen through C35 and C36.\<close>

theorem app_no_data_iff_no_figure_witness:
  "\<exists>out. run_app (\<lambda>_. []) (sample_input (Date 2025 6 30) gold_apple_picks) = Inr out \<and>
     out_figure out \<noteq> None \<and> ErrNoValidData \<notin> set (out_log out) \<and> out_csv out \<noteq> None"
proof -
  obtain out where r: "run_app (\<lambda>_. []) (sample_input (Date 2025 6 30) gold_apple_picks) = Inr out"
      and fig: "out_figure out \<noteq> None"
    using gold_apple_run [of "\<lambda>_. []"] by simp
  have c: "(out_figure out = None \<longleftrightarrow> ErrNoValidData \<in> set (out_log out)) \<and>
      (out_figure out = None \<longleftrightarrow> out_csv out = None)"
    by (rule app_no_data_iff_no_figure [OF r])
  from r c fig show ?thesis by blast
qed

theorem app_trace_names_selected_witness:
  "map tname (ftraces (build_figure gold_table (Date 2010 1 1) (Date 2025 6 30) True)) = [''Or''] \<and>
   (\<exists>sel hints c xs. selected_assets_of gold_apple_picks = Inr (sel, hints) \<and> (c, xs) \<in> set sel \<and> ''Or'' \<in> set xs)"
proof -
  let ?f = "build_figure gold_table (Date 2010 1 1) (Date 2025 6 30) True"
  obtain out where r: "run_app (\<lambda>_. []) (sample_input (Date 2025 6 30) gold_apple_picks) = Inr out"
      and fig: "out_figure out = Some ?f"
    using gold_apple_run [of "\<lambda>_. []"] by simp
  have names: "map tname (ftraces ?f) = [''Or'']"
    by (simp add: build_figure_unfold traces_of_def gold_table_def)
  then have n: "''Or'' \<in> set (map tname (ftraces ?f))" by simp
  have "\<exists>sel hints c xs. selected_assets_of (in_picks (sample_input (Date 2025 6 30) gold_apple_picks)) = Inr (sel, hints) \<and>
      (c, xs) \<in> set sel \<and> ''Or'' \<in> set xs"
    by (rule app_trace_names_selected [OF r fig n])
  with names show ?thesis by (simp add: sample_input_def)
qed

text \<open>
  C29: the returns listing and the chart agree: every asset listed with a return
  is one of the chart's curves (a return is computed only for a column of the
  table the chart draws).
\<close>

theorem app_report_assets_charted:
  assumes run: "run_app fmt inp = Inr out" and fig: "out_figure out = Some f"
    and line: "ReturnLine a v \<in> set (out_report out)"
  shows "a \<in> set (map tname (ftraces f))"
proof -
  obtain s e tb rets where f: "f = build_figure tb s e (in_show_events inp)"
      and rets: "compute_returns tb = Inr rets" and rep: "out_report out = report_returns rets"
    using run_app_figure [OF run fig] by metis
  have "(a, v) \<in> set rets" using line rep by (auto simp: report_returns_def split: if_splits)
  then have "a \<in> set (map fst rets)" by force
  then have "a \<in> set (map fst (tcols tb))"
    using return_fold_keys [of "tcols tb" "[]" rets] rets by (auto simp: compute_returns_def)
  then show ?thesis by (simp add: f build_figure_trace_names)
qed

theorem app_report_assets_charted_witness:
  "ReturnLine ''Or'' (Num 2.5) \<in> set [ReturnsHeader, ReturnLine ''Or'' (Num 2.5)] \<and>
   ''Or'' \<in> set (map tname (ftraces (build_figure gold_table (Date 2010 1 1) (Date 2025 6 30) True)))"
proof -
  let ?f = "build_figure gold_table (Date 2010 1 1) (Date 2025 6 30) True"
  obtain out where r: "run_app (\<lambda>_. []) (sample_input (Date 2025 6 30) gold_apple_picks) = Inr out"
      and fig: "out_figure out = Some ?f" and rep: "out_report out = [ReturnsHeader, ReturnLine ''Or'' (Num 2.5)]"
    using gold_apple_run [of "\<lambda>_. []"] by simp
  have l: "ReturnLine ''Or'' (Num 2.5) \<in> set (out_report out)" by (simp add: rep)
  show ?thesis using app_report_assets_charted [OF r fig l] by simp
qed

text \<open>
  C30: the download and the chart show the same table: read back, the export's
  header is the index name followed by the chart's curve names in the chart's
  order, and its records are dated by exactly the dates each curve is drawn over.
\<close>

theorem app_export_matches_chart:
  assumes run: "run_app fmt inp = Inr out" and fig: "out_figure out = Some f" and csv: "out_csv out = Some csvtext"
  shows "hd (csv_read csvtext) = ''Date'' # map tname (ftraces f) \<and>
         (\<forall>tr \<in> set (ftraces f). map hd (tl (csv_read csvtext)) = map date_iso (tx tr))"
proof -
  obtain s e tb where f: "f = build_figure tb s e (in_show_events inp)" and exp: "out_csv out = Some (to_csv fmt tb)"
    using run_app_figure [OF run fig] by metis
  have "\<forall>r \<in> set (csv_cells fmt tb). r \<noteq> []" by (auto simp: csv_cells_def)
  then have "csv_read csvtext = csv_cells fmt tb"
    using csv_scan_records [of "csv_cells fmt tb"] csv exp by (simp add: csv_read_def to_csv_def csv_lines_def comp_def)
  then show ?thesis
    by (auto simp: f build_figure_trace_names csv_cells_header csv_cells_dates build_figure_unfold traces_of_def)
qed

theorem app_export_matches_chart_witness:
  "hd (csv_read (to_csv (\<lambda>_. []) gold_table)) = [''Date'', ''Or'']"
proof -
  let ?f = "build_figure gold_table (Date 2010 1 1) (Date 2025 6 30) True"
  obtain out where r: "run_app (\<lambda>_. []) (sample_input (Date 2025 6 30) gold_apple_picks) = Inr out"
      and fig: "out_figure out = Some ?f" and csv: "out_csv out = Some (to_csv (\<lambda>_. []) gold_table)"
    using gold_apple_run [of "\<lambda>_. []"] by simp
  have "map tname (ftraces ?f) = [''Or'']" by (simp add: build_figure_trace_names gold_table_def)
  then show ?thesis using app_export_matches_chart [OF r fig csv] by simp
qed

text \<open>
  C31: the returns loop never raises: \<open>iloc[0]\<close> and \<open>iloc[-1]\<close> of line 246 are
  never taken on an empty column, because every ticker the loop keeps has a
  non-empty series, so the table has at least one date and every column is as
  long as its index. No run of the script ends in an \<open>IndexError\<close>.
\<close>

theorem app_no_return_index_error: "run_app fmt inp \<noteq> Inl (ReturnIndex err)"
proof
  assume run: "run_app fmt inp = Inl (ReturnIndex err)"
  then obtain s e hints ts t2n where
    r: "render fmt inp s e t2n hints (load_all (in_source inp) (date_iso s) (date_iso e) ts) = Inl (ReturnIndex err)"
    by (auto simp: run_app_def split: sum.splits)
  let ?st = "load_all (in_source inp) (date_iso s) (date_iso e) ts"
  obtain tb where ne: "data ?st \<noteq> []" and tb: "build_df (data ?st) t2n = Inr tb"
      and ret: "compute_returns tb = Inl err"
    using r by (auto simp: render_def split: if_splits sum.splits)
  have "\<forall>(k, res) \<in> set (data ?st). \<not> result_empty res" using load_all_results by blast
  then have "\<forall>c \<in> set (tcols tb). snd c \<noteq> []" using build_df_columns_nonempty [OF tb ne] by blast
  then obtain rets where "compute_returns tb = Inr rets"
    using return_fold_total [of "tcols tb" "[]"] by (auto simp: compute_returns_def)
  with ret show False by simp
qed

end
